theory Spec2Isabelle
  imports Complex_Main "HOL-Library.Multiset" "HOL-Library.Log_Nat"
begin

section \<open>Numbers and JSON values of the JavaScript runtime\<close>

text \<open>
  The relay is a TypeScript program for Node.js. Its numbers are IEEE 754 doubles: a
  finite one is the rational it denotes, and the three special values are kept apart.
  Zero has no sign here. Arithmetic rounds the exact result to the nearest double, ties
  to even, as the runtime does. Millisecond clock readings are integers below \<open>2^53\<close>,
  which are doubles, and so are their differences.
\<close>

datatype jsnum = Num rat | NaN | PosInf | NegInf

datatype js_error = Error string | TypeError string

text \<open>\<open>a <= b\<close> on numbers: false as soon as one side is \<open>NaN\<close>.\<close>

fun js_le :: "jsnum \<Rightarrow> jsnum \<Rightarrow> bool" where
  "js_le NaN _ = False"
| "js_le _ NaN = False"
| "js_le NegInf _ = True"
| "js_le _ PosInf = True"
| "js_le (Num a) (Num b) = (a \<le> b)"
| "js_le _ _ = False"

text \<open>\<open>a < b\<close> on numbers.\<close>

fun js_lt :: "jsnum \<Rightarrow> jsnum \<Rightarrow> bool" where
  "js_lt NaN _ = False"
| "js_lt _ NaN = False"
| "js_lt (Num a) (Num b) = (a < b)"
| "js_lt PosInf _ = False"
| "js_lt _ NegInf = False"
| "js_lt _ _ = True"

text \<open>\<open>Math.min(a, b)\<close>: \<open>NaN\<close> as soon as one argument is \<open>NaN\<close>.\<close>

fun Math_min :: "jsnum \<Rightarrow> jsnum \<Rightarrow> jsnum" where
  "Math_min NaN _ = NaN"
| "Math_min _ NaN = NaN"
| "Math_min NegInf _ = NegInf"
| "Math_min _ NegInf = NegInf"
| "Math_min PosInf b = b"
| "Math_min a PosInf = a"
| "Math_min (Num a) (Num b) = Num (min a b)"

subsection \<open>Rounding and arithmetic\<close>

text \<open>
  The binade of a rational \<open>x \<noteq> 0\<close>: the integer \<open>e\<close> with
  \<open>2^e \<le> |x| < 2^(e+1)\<close>, found from the bit lengths of numerator and denominator.
\<close>

definition binade :: "rat \<Rightarrow> int" where
  "binade x =
     (let (p, q) = quotient_of \<bar>x\<bar>; d = bitlen p - bitlen q
      in if power_int 2 d \<le> \<bar>x\<bar> then d else d - 1)"

definition round_half_even :: "rat \<Rightarrow> int" where
  "round_half_even x =
     (let f = \<lfloor>x\<rfloor>; r = x - of_int f
      in if r < 1 / 2 then f else if 1 / 2 < r then f + 1 else if even f then f else f + 1)"

text \<open>
  Rounding to binary64: 53 significant bits, exponents from \<open>-1022\<close> (below which the
  spacing stays that of the subnormals, \<open>2^-1074\<close>) to \<open>1023\<close>, nearest value with
  ties to even, and infinity once the rounded value reaches \<open>2^1024\<close>.
\<close>

definition fl :: "rat \<Rightarrow> jsnum" where
  "fl x =
     (if x = 0 then Num 0
      else (let e = max (binade x) (- 1022);
                ulp = power_int 2 (e - 52);
                r = of_int (round_half_even (x / ulp)) * ulp
            in if 2 ^ 1024 \<le> r then PosInf
               else if r \<le> - (2 ^ 1024) then NegInf
               else Num r))"

fun js_neg :: "jsnum \<Rightarrow> jsnum" where
  "js_neg (Num a) = Num (- a)"
| "js_neg NaN = NaN"
| "js_neg PosInf = NegInf"
| "js_neg NegInf = PosInf"

text \<open>\<open>a + b\<close>, \<open>a - b\<close>, \<open>a * b\<close> and \<open>a / b\<close> on numbers.\<close>

fun js_add :: "jsnum \<Rightarrow> jsnum \<Rightarrow> jsnum" where
  "js_add (Num a) (Num b) = fl (a + b)"
| "js_add NaN _ = NaN"
| "js_add _ NaN = NaN"
| "js_add PosInf NegInf = NaN"
| "js_add NegInf PosInf = NaN"
| "js_add PosInf _ = PosInf"
| "js_add NegInf _ = NegInf"
| "js_add _ PosInf = PosInf"
| "js_add _ NegInf = NegInf"

definition js_sub :: "jsnum \<Rightarrow> jsnum \<Rightarrow> jsnum" where
  "js_sub a b = js_add a (js_neg b)"

fun js_mul :: "jsnum \<Rightarrow> jsnum \<Rightarrow> jsnum" where
  "js_mul (Num a) (Num b) = fl (a * b)"
| "js_mul NaN _ = NaN"
| "js_mul _ NaN = NaN"
| "js_mul (Num a) b = (if a = 0 then NaN else if 0 < a then b else js_neg b)"
| "js_mul a (Num b) = (if b = 0 then NaN else if 0 < b then a else js_neg a)"
| "js_mul PosInf b = b"
| "js_mul NegInf b = js_neg b"

fun js_div :: "jsnum \<Rightarrow> jsnum \<Rightarrow> jsnum" where
  "js_div (Num a) (Num b) =
     (if b = 0 then (if a = 0 then NaN else if 0 < a then PosInf else NegInf)
      else fl (a / b))"
| "js_div NaN _ = NaN"
| "js_div _ NaN = NaN"
| "js_div (Num a) _ = Num 0"
| "js_div a (Num b) = (if 0 \<le> b then a else js_neg a)"
| "js_div _ _ = NaN"

subsection \<open>JSON values\<close>

text \<open>
  A value produced by \<open>JSON.parse\<close>. An object keeps its members in source order;
  a later member of the same name overrides an earlier one.
\<close>

datatype json =
    JNull
  | JBool bool
  | JNum rat
  | JStr string
  | JArr "json list"
  | JObj "(string \<times> json) list"

subsection \<open>Events\<close>

text \<open>
  A Nostr event as it travels and is stored. Two fields are modelled by what the relay
  reads in them: \<open>content\<close>, a string in the source, is represented by the value
  \<open>JSON.parse\<close> gives for it (\<open>None\<close> when parsing throws), so \<open>JSON.stringify\<close>
  of a value \<open>v\<close> is \<open>Some v\<close>; and a tag holds JSON values, because the relay
  copies the request's \<open>pair\<close>, whatever its type, into the tags of its error events.
\<close>

record NostrEvent =
  event_id :: string
  pubkey :: string
  created_at :: int
  kind :: int
  tags :: "json list list"
  content :: "json option"
  sig :: string

record event_template =
  t_kind :: int
  t_created_at :: int
  t_tags :: "json list list"
  t_content :: "json option"

text \<open>
  What the relay uses of its runtime and of the nostr-tools library without defining it:
  the conversions between strings and numbers (ECMAScript \<open>StringToNumber\<close> and
  \<open>Number::toString\<close>), signature verification, and the part of \<open>finalizeEvent\<close>
  that derives the public key, the event id and the signature (returned in that order)
  from the template and the secret key.
\<close>

record lib =
  StringToNumber :: "string \<Rightarrow> jsnum"
  NumberToString :: "rat \<Rightarrow> string"
  nostrVerifyEvent :: "NostrEvent \<Rightarrow> bool"
  finalize_ids :: "event_template \<Rightarrow> string \<Rightarrow> string \<times> string \<times> string"

text \<open>
  Property read \<open>v.name\<close> for a name that no prototype defines (the handler reads
  \<open>pair\<close>, \<open>method\<close>, \<open>sources\<close> and \<open>maxAgeMs\<close>): only an object with such a
  member yields a value, everything else yields \<open>undefined\<close>, here \<open>None\<close>.
\<close>

fun js_get :: "json \<Rightarrow> string \<Rightarrow> json option" where
  "js_get (JObj members) name = map_of (rev members) name"
| "js_get _ name = None"

text \<open>\<open>x ?? d\<close>: the default replaces \<open>undefined\<close> and \<open>null\<close>, nothing else.\<close>

fun nullish :: "json option \<Rightarrow> json \<Rightarrow> json" where
  "nullish None d = d"
| "nullish (Some JNull) d = d"
| "nullish (Some v) d = v"

fun js_truthy :: "json \<Rightarrow> bool" where
  "js_truthy JNull = False"
| "js_truthy (JBool b) = b"
| "js_truthy (JNum r) = (r \<noteq> 0)"
| "js_truthy (JStr s) = (s \<noteq> [])"
| "js_truthy (JArr _) = True"
| "js_truthy (JObj _) = True"

fun sequence_results :: "(js_error + 'a) list \<Rightarrow> js_error + 'a list" where
  "sequence_results [] = Inr []"
| "sequence_results (Inl e # _) = Inl e"
| "sequence_results (Inr x # rs) =
     (case sequence_results rs of Inl e \<Rightarrow> Inl e | Inr xs \<Rightarrow> Inr (x # xs))"

fun join_comma :: "string list \<Rightarrow> string" where
  "join_comma [] = []"
| "join_comma [s] = s"
| "join_comma (s # ss) = s @ '','' @ join_comma ss"

text \<open>
  \<open>String(v)\<close>. An array is joined with commas, \<open>null\<close> elements giving the empty
  string. An object parsed from JSON has no callable member, so one that carries its own
  \<open>toString\<close> member hides \<open>Object.prototype.toString\<close>, the inherited
  \<open>valueOf\<close> returns the object itself, and the conversion throws a \<open>TypeError\<close>;
  any other object prints as \<open>[object Object]\<close>.
\<close>

fun js_String :: "lib \<Rightarrow> json \<Rightarrow> js_error + string" where
  "js_String L JNull = Inr ''null''"
| "js_String L (JBool b) = Inr (if b then ''true'' else ''false'')"
| "js_String L (JNum r) = Inr (NumberToString L r)"
| "js_String L (JStr s) = Inr s"
| "js_String L (JArr xs) =
     (case sequence_results (map (\<lambda>x. if x = JNull then Inr [] else js_String L x) xs) of
        Inl e \<Rightarrow> Inl e
      | Inr parts \<Rightarrow> Inr (join_comma parts))"
| "js_String L (JObj members) =
     (if ''toString'' \<in> fst ` set members
      then Inl (TypeError ''Cannot convert object to primitive value'')
      else Inr ''[object Object]'')"

text \<open>
  \<open>Number(v)\<close>. Arrays and objects are first converted to a primitive: an array
  through its string form, an object as for \<open>String\<close> (and \<open>[object Object]\<close>
  is not a numeric literal).
\<close>

fun js_Number :: "lib \<Rightarrow> json \<Rightarrow> js_error + jsnum" where
  "js_Number L JNull = Inr (Num 0)"
| "js_Number L (JBool b) = Inr (Num (if b then 1 else 0))"
| "js_Number L (JNum r) = Inr (Num r)"
| "js_Number L (JStr s) = Inr (StringToNumber L s)"
| "js_Number L (JArr xs) =
     (case js_String L (JArr xs) of Inl e \<Rightarrow> Inl e | Inr s \<Rightarrow> Inr (StringToNumber L s))"
| "js_Number L (JObj members) =
     (if ''toString'' \<in> fst ` set members
      then Inl (TypeError ''Cannot convert object to primitive value'')
      else Inr NaN)"

section \<open>The relay: configuration and pure helpers\<close>

text \<open>
  The constants read from the environment at start-up, with their defaults
  (\<open>FETCH_TIMEOUT_MS\<close> and \<open>FETCH_RETRIES\<close> only shape the network calls and are
  left out).
\<close>

record config =
  MIN_QUORUM :: int
  CACHE_TTL_MS :: int
  MAX_REQUEST_MAXAGE_MS :: int
  MAX_EVENT_BYTES :: nat
  MAX_STORED_EVENTS :: nat
  RATE_IP_RPS :: rat
  RATE_PUBKEY_RPS :: rat
  RATE_BURST :: rat

definition default_config :: config where
  "default_config =
     \<lparr>MIN_QUORUM = 3, CACHE_TTL_MS = 2000, MAX_REQUEST_MAXAGE_MS = 60000,
      MAX_EVENT_BYTES = 64000, MAX_STORED_EVENTS = 10000,
      RATE_IP_RPS = 3, RATE_PUBKEY_RPS = 2, RATE_BURST = 10\<rparr>"

definition KIND_PRICE_REQ :: int where "KIND_PRICE_REQ = 38000"
definition KIND_PRICE_RES :: int where "KIND_PRICE_RES = 38001"
definition KIND_PRICE_ERR :: int where "KIND_PRICE_ERR = 38002"

definition ALL_SOURCES :: "string list" where
  "ALL_SOURCES = [''coinbase'', ''kraken'', ''coingecko'', ''bitstamp'']"

fun nth_opt :: "'a list \<Rightarrow> nat \<Rightarrow> 'a option" where
  "nth_opt [] i = None"
| "nth_opt (x # xs) 0 = Some x"
| "nth_opt (x # xs) (Suc i) = nth_opt xs i"

text \<open>\<open>getTag\<close>: the second element of the first tag named \<open>name\<close> whose second
  element is truthy; \<open>null\<close> (here \<open>None\<close>) when there is none.\<close>

fun getTag_in :: "json list list \<Rightarrow> string \<Rightarrow> json option" where
  "getTag_in [] name = None"
| "getTag_in (t # rest) name =
     (case (nth_opt t 0, nth_opt t 1) of
        (Some t0, Some t1) \<Rightarrow>
          if t0 = JStr name \<and> js_truthy t1 then Some t1 else getTag_in rest name
      | _ \<Rightarrow> getTag_in rest name)"

definition getTag :: "NostrEvent \<Rightarrow> string \<Rightarrow> json option" where
  "getTag evt name = getTag_in (tags evt) name"

definition verifyEvent :: "lib \<Rightarrow> NostrEvent \<Rightarrow> bool" where
  "verifyEvent L evt =
     (if event_id evt = [] \<or> pubkey evt = [] \<or> sig evt = [] then False
      else nostrVerifyEvent L evt)"

text \<open>\<open>nowSec\<close> at a clock reading in milliseconds.\<close>

definition nowSec :: "int \<Rightarrow> int" where
  "nowSec now_ms = now_ms div 1000"

text \<open>\<open>signEvent\<close>: throws until the relay key exists, then stamps and finalizes.\<close>

definition signEvent ::
  "lib \<Rightarrow> string option \<Rightarrow> int \<Rightarrow> int \<Rightarrow> json list list \<Rightarrow> json \<Rightarrow> js_error + NostrEvent" where
  "signEvent L secret now_ms k tgs body =
     (case secret of
        None \<Rightarrow> Inl (Error ''Relay secret key not initialized'')
      | Some sk \<Rightarrow>
          (let tmpl = \<lparr>t_kind = k, t_created_at = nowSec now_ms, t_tags = tgs,
                       t_content = Some body\<rparr>;
               (pk, i, sg) = finalize_ids L tmpl sk
           in Inr \<lparr>event_id = i, pubkey = pk, created_at = t_created_at tmpl, kind = t_kind tmpl,
                   tags = t_tags tmpl, content = t_content tmpl, sig = sg\<rparr>))"

subsection \<open>Aggregation\<close>

record PriceSample =
  source :: string
  svalue :: rat
  ts :: int

text \<open>
  \<open>median\<close> and \<open>mean\<close> on the values of the samples (field \<open>value\<close> in the
  source), which are finite doubles. An index outside the array reads \<open>undefined\<close>,
  which is \<open>NaN\<close> in arithmetic; so on the empty array both functions yield \<open>NaN\<close>
  (\<open>undefined + undefined\<close> and \<open>0 / 0\<close>).
\<close>

definition js_at :: "rat list \<Rightarrow> int \<Rightarrow> jsnum" where
  "js_at arr i = (if 0 \<le> i \<and> i < int (length arr) then Num (arr ! nat i) else NaN)"

definition median :: "rat list \<Rightarrow> jsnum" where
  "median values =
     (let arr = sort values; mid = int (length arr) div 2 in
      if length arr mod 2 = 0 then js_div (js_add (js_at arr (mid - 1)) (js_at arr mid)) (Num 2)
      else js_at arr mid)"

definition mean :: "rat list \<Rightarrow> jsnum" where
  "mean values = js_div (foldl js_add (Num 0) (map Num values)) (Num (of_nat (length values)))"

text \<open>\<open>xs.slice(1, -1)\<close>: from index 1 up to, not including, index \<open>length - 1\<close>.\<close>

definition slice_1_m1 :: "'a list \<Rightarrow> 'a list" where
  "slice_1_m1 xs = take (length xs - 1 - 1) (drop 1 xs)"

record aggregate_result =
  agg_value :: jsnum
  agg_method :: string
  used :: "PriceSample list"

text \<open>
  \<open>aggregate\<close>. The comparator \<open>a.value - b.value\<close> orders finite doubles as \<open>\<le>\<close>
  does (the difference of two different doubles never rounds to zero, and keeps its sign
  when it overflows) and \<open>Array.prototype.sort\<close> is stable, which is \<open>sort_key\<close>.
\<close>

definition aggregate :: "PriceSample list \<Rightarrow> string \<Rightarrow> js_error + aggregate_result" where
  "aggregate samples method =
     (let values = map svalue samples in
      if values = [] then Inl (Error ''no samples'')
      else if method = ''trimmed_mean'' \<and> 5 \<le> length samples then
        (let sorted_samples = sort_key svalue samples;
             used_samples = slice_1_m1 sorted_samples
         in Inr \<lparr>agg_value = mean (map svalue used_samples), agg_method = ''trimmed_mean'',
                 used = used_samples\<rparr>)
      else if 3 \<le> length samples then
        Inr \<lparr>agg_value = median values, agg_method = ''median'', used = samples\<rparr>
      else Inr \<lparr>agg_value = mean values, agg_method = ''mean'', used = samples\<rparr>)"

subsection \<open>Rate limiter\<close>

record bucket =
  tokens :: jsnum
  last_ms :: int

text \<open>A limiter; refill rate and capacity are finite doubles.\<close>

record RateLimiter =
  buckets :: "string \<rightharpoonup> bucket"
  rps :: rat
  burst :: rat

definition new_RateLimiter :: "rat \<Rightarrow> rat \<Rightarrow> RateLimiter" where
  "new_RateLimiter r b = \<lparr>buckets = Map.empty, rps = r, burst = b\<rparr>"

text \<open>\<open>RateLimiter.allow(key, nowMs)\<close>: the answer and the limiter afterwards.\<close>

definition allow :: "RateLimiter \<Rightarrow> string \<Rightarrow> int \<Rightarrow> bool \<times> RateLimiter" where
  "allow rl key nowMs =
     (let b = (case buckets rl key of
                 Some b0 \<Rightarrow> b0
               | None \<Rightarrow> \<lparr>tokens = Num (burst rl), last_ms = nowMs\<rparr>);
          elapsed = js_div (Num (of_int (nowMs - last_ms b))) (Num 1000);
          b1 = b\<lparr>last_ms := nowMs\<rparr>;
          b2 = b1\<lparr>tokens := Math_min (Num (burst rl))
                                 (js_add (tokens b1) (js_mul elapsed (Num (rps rl))))\<rparr>
      in if js_lt (tokens b2) (Num 1) then (False, rl\<lparr>buckets := (buckets rl)(key \<mapsto> b2)\<rparr>)
         else (True, rl\<lparr>buckets :=
                 (buckets rl)(key \<mapsto> b2\<lparr>tokens := js_sub (tokens b2) (Num 1)\<rparr>)\<rparr>))"

subsection \<open>Price cache\<close>

record cache_entry =
  tsMs :: int
  samples :: "PriceSample list"

record cache_view = cache_entry +
  ageMs :: int

definition cacheGet :: "config \<Rightarrow> int \<Rightarrow> cache_entry option \<Rightarrow> cache_view option" where
  "cacheGet cfg now cache =
     (case cache of
        None \<Rightarrow> None
      | Some c \<Rightarrow>
          (let age = now - tsMs c in
           if age > CACHE_TTL_MS cfg then None
           else Some \<lparr>tsMs = tsMs c, samples = samples c, ageMs = age\<rparr>))"

definition cacheSet :: "int \<Rightarrow> PriceSample list \<Rightarrow> cache_entry option" where
  "cacheSet now smpls = Some \<lparr>tsMs = now, samples = smpls\<rparr>"

subsection \<open>Event store and filters\<close>

text \<open>\<open>storeEvent\<close>: push, then \<open>splice\<close> the surplus off the head.\<close>

definition storeEvent :: "config \<Rightarrow> NostrEvent list \<Rightarrow> NostrEvent \<Rightarrow> NostrEvent list" where
  "storeEvent cfg events evt =
     (let pushed = events @ [evt] in
      if length pushed > MAX_STORED_EVENTS cfg
      then drop (length pushed - MAX_STORED_EVENTS cfg) pushed
      else pushed)"

text \<open>
  A filter with the fields the interface \<open>NostrFilter\<close> declares; \<open>tag_keys\<close> lists its
  members whose name starts with \<open>#\<close>, in member order, as the name without
  the \<open>#\<close> and the requested values (\<open>None\<close> for \<open>null\<close>).
\<close>

record NostrFilter =
  ids :: "string list option"
  kinds :: "int list option"
  authors :: "string list option"
  since :: "int option"
  until :: "int option"
  limit :: "int option"
  tag_keys :: "(string \<times> string list option) list"

definition tag_wanted :: "NostrEvent \<Rightarrow> string \<times> string list option \<Rightarrow> bool" where
  "tag_wanted evt k =
     (let tagName = fst k;
          want = (case snd k of None \<Rightarrow> [] | Some w \<Rightarrow> w);
          have = map (\<lambda>t. nth_opt t 1) (filter (\<lambda>t. nth_opt t 0 = Some (JStr tagName)) (tags evt))
      in \<exists>x \<in> set want. Some (JStr x) \<in> set have)"

definition matchFilter :: "NostrEvent \<Rightarrow> NostrFilter \<Rightarrow> bool" where
  "matchFilter evt f =
     (if (case ids f of Some l \<Rightarrow> event_id evt \<notin> set l | None \<Rightarrow> False) then False
      else if (case kinds f of Some l \<Rightarrow> kind evt \<notin> set l | None \<Rightarrow> False) then False
      else if (case authors f of Some l \<Rightarrow> pubkey evt \<notin> set l | None \<Rightarrow> False) then False
      else if (case since f of Some s \<Rightarrow> s \<noteq> 0 \<and> created_at evt < s | None \<Rightarrow> False) then False
      else if (case until f of Some u \<Rightarrow> u \<noteq> 0 \<and> created_at evt > u | None \<Rightarrow> False) then False
      else list_all (tag_wanted evt) (tag_keys f))"

text \<open>
  The inner loop of \<open>queryEvents\<close>: \<open>newest_first\<close> is what is left of the store
  below index \<open>i\<close>, read downwards; the loop stops when it is exhausted or
  \<open>matched.length < limit\<close> fails.
\<close>

fun scan_store :: "NostrFilter \<Rightarrow> int \<Rightarrow> NostrEvent list \<Rightarrow> NostrEvent list \<Rightarrow> NostrEvent list" where
  "scan_store f lmt [] matched = matched"
| "scan_store f lmt (e # older) matched =
     (if int (length matched) < lmt
      then scan_store f lmt older (if matchFilter e f then matched @ [e] else matched)
      else matched)"

definition filter_limit :: "NostrFilter \<Rightarrow> int" where
  "filter_limit f = min (case limit f of None \<Rightarrow> 200 | Some l \<Rightarrow> l) 2000"

definition queryEvents :: "NostrEvent list \<Rightarrow> NostrFilter list \<Rightarrow> NostrEvent list" where
  "queryEvents events filters =
     foldl (\<lambda>out f. out @ scan_store f (filter_limit f) (rev events) []) [] filters"

section \<open>The relay: connections, state and message handling\<close>

datatype relay_msg =
    NOTICE string
  | OK string bool string
  | EVENT NostrEvent
  | EVENT_sub string NostrEvent
  | EOSE string

text \<open>
  A connection (\<open>ExtendedWebSocket\<close>): its address, its subscriptions, whether
  \<open>readyState\<close> is \<open>OPEN\<close>, and the frames written to it so far.
\<close>

record connection =
  ip :: string
  subs :: "string \<rightharpoonup> NostrFilter list"
  is_open :: bool
  sent :: "relay_msg list"

definition send :: "connection \<Rightarrow> relay_msg \<Rightarrow> connection" where
  "send ws msg = (if is_open ws then ws\<lparr>sent := sent ws @ [msg]\<rparr> else ws)"

text \<open>
  The module's variables. \<open>broadcasted\<close> lists the messages handed to \<open>broadcast\<close>,
  each of which goes to every open client; \<open>fetch_calls\<close> lists the fan-outs, each
  the sources \<open>fetchPrice\<close> was called with.
\<close>

record relay_state =
  events :: "NostrEvent list"
  ipLimiter :: RateLimiter
  pubLimiter :: RateLimiter
  priceCache :: "cache_entry option"
  RELAY_SECRET_KEY :: "string option"
  broadcasted :: "relay_msg list"
  fetch_calls :: "string list list"

definition broadcast :: "relay_msg \<Rightarrow> relay_state \<Rightarrow> relay_state" where
  "broadcast msg st = st\<lparr>broadcasted := broadcasted st @ [msg]\<rparr>"

text \<open>The state once \<open>setupNostrRelay\<close> has run \<open>ensureRelayKeys\<close>, with secret key \<open>sk\<close>.\<close>

definition initial_state :: "config \<Rightarrow> string \<Rightarrow> relay_state" where
  "initial_state cfg sk =
     \<lparr>events = [],
      ipLimiter = new_RateLimiter (RATE_IP_RPS cfg) (RATE_BURST cfg),
      pubLimiter = new_RateLimiter (RATE_PUBKEY_RPS cfg) (RATE_BURST cfg),
      priceCache = None, RELAY_SECRET_KEY = Some sk, broadcasted = [], fetch_calls = []\<rparr>"

text \<open>
  The readings of \<open>Date.now()\<close> at its call sites while one message is handled:
  in the two \<open>allow\<close> calls, in \<open>cacheGet\<close>, in the \<open>ts\<close> member of a response,
  in \<open>signEvent\<close> and in \<open>cacheSet\<close>.
\<close>

record clock =
  at_ip :: int
  at_pub :: int
  at_cacheGet :: int
  at_content :: int
  at_sign :: int
  at_cacheSet :: int

subsection \<open>The price request handler\<close>

definition request_body :: "NostrEvent \<Rightarrow> json" where
  "request_body evt = nullish (content evt) (JObj [])"

definition request_pair :: "NostrEvent \<Rightarrow> json" where
  "request_pair evt =
     nullish (js_get (request_body evt) ''pair'')
       (nullish (getTag evt ''pair'') (JStr ''BTC-USD''))"

definition request_method :: "lib \<Rightarrow> NostrEvent \<Rightarrow> js_error + string" where
  "request_method L evt =
     js_String L (nullish (js_get (request_body evt) ''method'') (JStr ''trimmed_mean''))"

definition request_maxAgeMsReq :: "lib \<Rightarrow> NostrEvent \<Rightarrow> js_error + jsnum" where
  "request_maxAgeMsReq L evt =
     js_Number L (nullish (js_get (request_body evt) ''maxAgeMs'') (JNum 20000))"

definition clamp_maxAgeMs :: "config \<Rightarrow> jsnum \<Rightarrow> jsnum" where
  "clamp_maxAgeMs cfg maxAgeMsReq = Math_min maxAgeMsReq (Num (of_int (MAX_REQUEST_MAXAGE_MS cfg)))"

definition recognized_source :: "json \<Rightarrow> string option" where
  "recognized_source x = (case x of JStr s \<Rightarrow> if s \<in> set ALL_SOURCES then Some s else None | _ \<Rightarrow> None)"

definition request_sources :: "NostrEvent \<Rightarrow> string list" where
  "request_sources evt =
     (let wantedSources =
            (case js_get (request_body evt) ''sources'' of
               Some (JArr xs) \<Rightarrow> List.map_filter recognized_source xs
             | _ \<Rightarrow> ALL_SOURCES)
      in if wantedSources \<noteq> [] then wantedSources else ALL_SOURCES)"

definition reply_tags :: "NostrEvent \<Rightarrow> string \<Rightarrow> json \<Rightarrow> json list list" where
  "reply_tags evt t pair =
     [[JStr ''e'', JStr (event_id evt), JStr ''reply''],
      [JStr ''p'', JStr (pubkey evt)],
      [JStr ''t'', JStr t],
      [JStr ''pair'', pair]]"

text \<open>\<open>JSON.stringify\<close> writes a number that is not finite as \<open>null\<close>.\<close>

fun json_of_number :: "jsnum \<Rightarrow> json" where
  "json_of_number (Num r) = JNum r"
| "json_of_number _ = JNull"

definition sample_json :: "PriceSample \<Rightarrow> json" where
  "sample_json s =
     JObj [(''source'', JStr (source s)), (''value'', JNum (svalue s)), (''ts'', JNum (of_int (ts s)))]"

definition response_content :: "json \<Rightarrow> int \<Rightarrow> aggregate_result \<Rightarrow> bool \<Rightarrow> int \<Rightarrow> json" where
  "response_content pair now r hit age =
     JObj [(''pair'', pair),
           (''ts'', JNum (of_int now)),
           (''value'', json_of_number (agg_value r)),
           (''method'', JStr (agg_method r)),
           (''sources_used'', JArr (map (\<lambda>s. JStr (source s)) (used r))),
           (''samples'', JArr (map sample_json (used r))),
           (''cache'', JObj [(''hit'', JBool hit), (''ageMs'', JNum (of_int age))])]"

definition response_tags :: "NostrEvent \<Rightarrow> json \<Rightarrow> aggregate_result \<Rightarrow> json list list" where
  "response_tags evt pair r =
     reply_tags evt ''price'' pair @ map (\<lambda>s. [JStr ''src'', JStr (source s)]) (used r)"

text \<open>What a handler run has come to: its end, the wait for the fan-out, or an exception
  that nothing catches.\<close>

record pending_fetch =
  p_req :: NostrEvent
  p_pair :: json
  p_method :: string
  p_sources :: "string list"

datatype step_result = Finished | Awaiting pending_fetch | Thrown js_error

definition store_and_broadcast :: "config \<Rightarrow> NostrEvent \<Rightarrow> relay_state \<Rightarrow> relay_state" where
  "store_and_broadcast cfg e st =
     broadcast (EVENT e) (st\<lparr>events := storeEvent cfg (events st) e\<rparr>)"

text \<open>\<open>cached && cached.ageMs <= maxAgeMs\<close>, as the entry served or \<open>None\<close>.\<close>

definition cache_hit :: "config \<Rightarrow> int \<Rightarrow> jsnum \<Rightarrow> cache_entry option \<Rightarrow> cache_view option" where
  "cache_hit cfg now maxAgeMs cache =
     (case cacheGet cfg now cache of
        None \<Rightarrow> None
      | Some cached \<Rightarrow> if js_le (Num (of_int (ageMs cached))) maxAgeMs then Some cached else None)"

text \<open>
  The handler of a stored request, from parsing its content up to the first point where
  it waits for the outside world, \<open>await Promise.allSettled\<close>. The \<open>await\<close>s before
  it are on values already computed and do not wait for anything.
\<close>

definition price_request_start ::
  "config \<Rightarrow> lib \<Rightarrow> clock \<Rightarrow> NostrEvent \<Rightarrow> relay_state \<Rightarrow> step_result \<times> relay_state" where
  "price_request_start cfg L clk evt st =
     (let pair = request_pair evt in
      case request_method L evt of
        Inl e \<Rightarrow> (Thrown e, st)
      | Inr method \<Rightarrow>
      (case request_maxAgeMsReq L evt of
        Inl e \<Rightarrow> (Thrown e, st)
      | Inr maxAgeMsReq \<Rightarrow>
      (let maxAgeMs = clamp_maxAgeMs cfg maxAgeMsReq in
       case js_String L pair of
        Inl e \<Rightarrow> (Thrown e, st)
      | Inr logged_pair \<Rightarrow>
       if pair \<noteq> JStr ''BTC-USD'' then
         (case signEvent L (RELAY_SECRET_KEY st) (at_sign clk) KIND_PRICE_ERR
                 (reply_tags evt ''price-error'' pair)
                 (JObj [(''error'', JStr ''unsupported pair''), (''pair'', pair)]) of
            Inl e \<Rightarrow> (Thrown e, st)
          | Inr errEvt \<Rightarrow> (Finished, store_and_broadcast cfg errEvt st))
       else
         (case cache_hit cfg (at_cacheGet clk) maxAgeMs (priceCache st) of
            Some cached \<Rightarrow>
              (case aggregate (samples cached) method of
                 Inl e \<Rightarrow> (Thrown e, st)
               | Inr r \<Rightarrow>
                 (case signEvent L (RELAY_SECRET_KEY st) (at_sign clk) KIND_PRICE_RES
                         (response_tags evt pair r)
                         (response_content pair (at_content clk) r True (ageMs cached)) of
                    Inl e \<Rightarrow> (Thrown e, st)
                  | Inr resp \<Rightarrow> (Finished, store_and_broadcast cfg resp st)))
          | None \<Rightarrow>
              (let sources = request_sources evt in
               (Awaiting \<lparr>p_req = evt, p_pair = pair, p_method = method, p_sources = sources\<rparr>,
                st\<lparr>fetch_calls := fetch_calls st @ [sources]\<rparr>))))))"

text \<open>
  The rest of the handler, resumed with the settled results of the fan-out, one per
  source: the sample of a fulfilled promise, \<open>None\<close> for a rejected one.
\<close>

definition price_request_finish ::
  "config \<Rightarrow> lib \<Rightarrow> clock \<Rightarrow> pending_fetch \<Rightarrow> PriceSample option list \<Rightarrow> relay_state
     \<Rightarrow> step_result \<times> relay_state" where
  "price_request_finish cfg L clk p results st =
     (let evt = p_req p; pair = p_pair p;
          smpls = List.map_filter (\<lambda>r. r) results
      in if int (length smpls) < MIN_QUORUM cfg then
           (case signEvent L (RELAY_SECRET_KEY st) (at_sign clk) KIND_PRICE_ERR
                   (reply_tags evt ''price-error'' pair)
                   (JObj [(''error'', JStr ''insufficient quorum''),
                          (''need'', JNum (of_int (MIN_QUORUM cfg))),
                          (''got'', JNum (of_nat (length smpls))),
                          (''sources_requested'', JArr (map JStr (p_sources p)))]) of
              Inl e \<Rightarrow> (Thrown e, st)
            | Inr errEvt \<Rightarrow> (Finished, store_and_broadcast cfg errEvt st))
         else
           (let st1 = st\<lparr>priceCache := cacheSet (at_cacheSet clk) smpls\<rparr> in
            case aggregate smpls (p_method p) of
              Inl e \<Rightarrow> (Thrown e, st1)
            | Inr r \<Rightarrow>
              (case signEvent L (RELAY_SECRET_KEY st1) (at_sign clk) KIND_PRICE_RES
                      (response_tags evt pair r)
                      (response_content pair (at_content clk) r False 0) of
                 Inl e \<Rightarrow> (Thrown e, st1)
               | Inr resp \<Rightarrow> (Finished, store_and_broadcast cfg resp st1))))"

subsection \<open>The message handler\<close>

datatype client_msg =
    EVENT_frame NostrEvent
  | REQ_frame string "NostrFilter list"
  | CLOSE_frame string
  | Other_frame

text \<open>
  An inbound frame: its text as Unicode code points, and what \<open>safeJsonParse\<close> and the
  dispatch on \<open>msg[0]\<close> make of it (\<open>None\<close> when the text does not parse to an array
  of at least two elements).
\<close>

record inbound =
  payload :: "nat list"
  decoded :: "client_msg option"

text \<open>UTF-16 code units and UTF-8 bytes of a code point: \<open>raw.toString().length\<close>
  counts the former, the size of the frame in bytes is the sum of the latter.\<close>

definition utf16_units :: "nat \<Rightarrow> nat" where
  "utf16_units cp = (if cp < 0x10000 then 1 else 2)"

definition utf8_bytes :: "nat \<Rightarrow> nat" where
  "utf8_bytes cp = (if cp < 0x80 then 1 else if cp < 0x800 then 2 else if cp < 0x10000 then 3 else 4)"

definition toString_length :: "nat list \<Rightarrow> nat" where
  "toString_length text = sum_list (map utf16_units text)"

definition byte_size :: "nat list \<Rightarrow> nat" where
  "byte_size text = sum_list (map utf8_bytes text)"

definition on_EVENT ::
  "config \<Rightarrow> lib \<Rightarrow> clock \<Rightarrow> connection \<Rightarrow> NostrEvent \<Rightarrow> relay_state
     \<Rightarrow> connection \<times> relay_state \<times> step_result" where
  "on_EVENT cfg L clk ws evt st =
     (if \<not> verifyEvent L evt then
        (send ws (OK (event_id evt) False ''invalid: bad sig or id''), st, Finished)
      else
        (let (ip_ok, ipl) = allow (ipLimiter st) (''ip:'' @ ip ws) (at_ip clk);
             st1 = st\<lparr>ipLimiter := ipl\<rparr>
         in if \<not> ip_ok then
              (send ws (OK (event_id evt) False ''rate limited (ip)''), st1, Finished)
            else
              (let (pub_ok, pl) = allow (pubLimiter st1) (''pub:'' @ pubkey evt) (at_pub clk);
                   st2 = st1\<lparr>pubLimiter := pl\<rparr>
               in if \<not> pub_ok then
                    (send ws (OK (event_id evt) False ''rate limited (pubkey)''), st2, Finished)
                  else
                    (let st3 = st2\<lparr>events := storeEvent cfg (events st2) evt\<rparr>;
                         ws1 = send ws (OK (event_id evt) True ''accepted'')
                     in if kind evt = KIND_PRICE_REQ then
                          (let (r, st4) = price_request_start cfg L clk evt st3 in (ws1, st4, r))
                        else (ws1, st3, Finished)))))"

definition on_REQ :: "connection \<Rightarrow> string \<Rightarrow> NostrFilter list \<Rightarrow> relay_state \<Rightarrow> connection" where
  "on_REQ ws subId filters st =
     (let ws1 = ws\<lparr>subs := (subs ws)(subId \<mapsto> filters)\<rparr>;
          found = queryEvents (events st) filters;
          ws2 = foldl (\<lambda>w e. send w (EVENT_sub subId e)) ws1 found
      in send ws2 (EOSE subId))"

definition on_message ::
  "config \<Rightarrow> lib \<Rightarrow> clock \<Rightarrow> connection \<Rightarrow> inbound \<Rightarrow> relay_state
     \<Rightarrow> connection \<times> relay_state \<times> step_result" where
  "on_message cfg L clk ws frame st =
     (if toString_length (payload frame) > MAX_EVENT_BYTES cfg then
        (send ws (NOTICE ''payload too large''), st, Finished)
      else
        (case decoded frame of
           None \<Rightarrow> (ws, st, Finished)
         | Some (EVENT_frame evt) \<Rightarrow> on_EVENT cfg L clk ws evt st
         | Some (REQ_frame subId filters) \<Rightarrow> (on_REQ ws subId filters st, st, Finished)
         | Some (CLOSE_frame subId) \<Rightarrow> (ws\<lparr>subs := (subs ws)(subId := None)\<rparr>, st, Finished)
         | Some Other_frame \<Rightarrow> (ws, st, Finished)))"

section \<open>Runs and worked examples\<close>

text \<open>Storing a sequence of events, one \<open>storeEvent\<close> call each.\<close>

definition store_all :: "config \<Rightarrow> NostrEvent list \<Rightarrow> NostrEvent list \<Rightarrow> NostrEvent list" where
  "store_all cfg store evts = foldl (storeEvent cfg) store evts"

definition ex_event :: "string \<Rightarrow> int \<Rightarrow> NostrEvent" where
  "ex_event i k =
     \<lparr>event_id = i, pubkey = ''alice'', created_at = 1700000000, kind = k,
      tags = [], content = None, sig = ''sig''\<rparr>"

definition ex_sample :: "string \<Rightarrow> rat \<Rightarrow> PriceSample" where
  "ex_sample s v = \<lparr>source = s, svalue = v, ts = 1700000000000\<rparr>"

definition five_samples :: "PriceSample list" where
  "five_samples =
     [ex_sample ''coinbase'' 60010, ex_sample ''kraken'' 61000, ex_sample ''coingecko'' 60000,
      ex_sample ''bitstamp'' 60021, ex_sample ''kraken'' 60030]"

definition four_samples :: "PriceSample list" where
  "four_samples =
     [ex_sample ''coinbase'' 60000, ex_sample ''kraken'' 60020, ex_sample ''coingecko'' 61000,
      ex_sample ''bitstamp'' 60010]"

definition three_samples :: "PriceSample list" where
  "three_samples =
     [ex_sample ''coinbase'' 60000, ex_sample ''kraken'' 60030, ex_sample ''bitstamp'' 60600]"

definition two_samples :: "PriceSample list" where
  "two_samples = [ex_sample ''coinbase'' 60000, ex_sample ''kraken'' 60100]"



text \<open>The bucket a call works on: the stored one, or \<open>(burst, t)\<close> when there is none.\<close>

definition bucket_at :: "RateLimiter \<Rightarrow> string \<Rightarrow> int \<Rightarrow> bucket" where
  "bucket_at rl key t =
     (case buckets rl key of
        Some b0 \<Rightarrow> b0
      | None \<Rightarrow> \<lparr>tokens = Num (burst rl), last_ms = t\<rparr>)"

text \<open>The refilled token count of the specification,
  \<open>min(burst, tokens + (t - last) \<cdot> rps)\<close> with the time difference in seconds, each
  operation rounded to a double.\<close>

definition refilled :: "RateLimiter \<Rightarrow> string \<Rightarrow> int \<Rightarrow> jsnum" where
  "refilled rl key t =
     (let b = bucket_at rl key t
      in Math_min (Num (burst rl))
           (js_add (tokens b)
              (js_mul (js_div (Num (of_int (t - last_ms b))) (Num 1000)) (Num (rps rl)))))"






text \<open>
  A stand-in for the library in the worked examples: they convert no string to a number
  and no number to a string, every signature in them verifies, and every reply gets the
  same identifiers.
\<close>

definition ex_lib :: lib where
  "ex_lib =
     \<lparr>StringToNumber = (\<lambda>s. NaN), NumberToString = (\<lambda>r. ''0''),
      nostrVerifyEvent = (\<lambda>e. True),
      finalize_ids = (\<lambda>t sk. (''relay-pubkey'', ''reply-id'', ''reply-sig''))\<rparr>"

definition ex_conn :: "string \<Rightarrow> connection" where
  "ex_conn a = \<lparr>ip = a, subs = Map.empty, is_open = True, sent = []\<rparr>"

definition ex_clock :: "int \<Rightarrow> clock" where
  "ex_clock t = \<lparr>at_ip = t, at_pub = t, at_cacheGet = t, at_content = t, at_sign = t, at_cacheSet = t\<rparr>"

definition one_token_config :: config where
  "one_token_config = default_config\<lparr>RATE_BURST := 1\<rparr>"

text \<open>The state after a first event of \<open>alice\<close>, sent from 10.0.0.7, was accepted.\<close>

definition after_first_event :: relay_state where
  "after_first_event =
     fst (snd (on_EVENT one_token_config ex_lib (ex_clock 5000) (ex_conn ''10.0.0.7'')
                 (ex_event ''e1'' 1) (initial_state one_token_config ''sk'')))"




text \<open>What a response reports about the cache: the members \<open>hit\<close> and \<open>ageMs\<close> of the
  member \<open>cache\<close> of its content.\<close>

definition reported_cache :: "NostrEvent \<Rightarrow> (bool \<times> rat) option" where
  "reported_cache e =
     (case content e of
        None \<Rightarrow> None
      | Some body \<Rightarrow>
          (case js_get body ''cache'' of
             None \<Rightarrow> None
           | Some c \<Rightarrow>
               (case (js_get c ''hit'', js_get c ''ageMs'') of
                  (Some (JBool h), Some (JNum a)) \<Rightarrow> Some (h, a)
                | _ \<Rightarrow> None)))"

text \<open>The messages a handler step hands to \<open>broadcast\<close>.\<close>

definition start_broadcasts ::
  "config \<Rightarrow> lib \<Rightarrow> clock \<Rightarrow> NostrEvent \<Rightarrow> relay_state \<Rightarrow> relay_msg list" where
  "start_broadcasts cfg L clk evt st =
     drop (length (broadcasted st)) (broadcasted (snd (price_request_start cfg L clk evt st)))"

definition finish_broadcasts ::
  "config \<Rightarrow> lib \<Rightarrow> clock \<Rightarrow> pending_fetch \<Rightarrow> PriceSample option list \<Rightarrow> relay_state
     \<Rightarrow> relay_msg list" where
  "finish_broadcasts cfg L clk p results st =
     drop (length (broadcasted st)) (broadcasted (snd (price_request_finish cfg L clk p results st)))"

definition ex_request :: "string \<Rightarrow> json \<Rightarrow> NostrEvent" where
  "ex_request i body =
     \<lparr>event_id = i, pubkey = ''alice'', created_at = 1700000000, kind = 38000,
      tags = [[JStr ''t'', JStr ''price-request'']], content = Some body, sig = ''sig''\<rparr>"

text \<open>A state whose cache was filled at clock reading 7000.\<close>

definition cached_state :: relay_state where
  "cached_state =
     (initial_state default_config ''sk'')\<lparr>priceCache := cacheSet 7000 three_samples\<rparr>"

text \<open>Kind and cache report of the events among some broadcast messages.\<close>

definition cache_reports :: "relay_msg list \<Rightarrow> (int \<times> (bool \<times> rat) option) list" where
  "cache_reports msgs =
     List.map_filter (\<lambda>m. case m of EVENT e \<Rightarrow> Some (kind e, reported_cache e) | _ \<Rightarrow> None) msgs"

definition ex_cached_reply :: NostrEvent where
  "ex_cached_reply =
     \<lparr>event_id = ''reply-id'', pubkey = ''relay-pubkey'', created_at = 7, kind = 38001,
      tags = response_tags (ex_request ''req1'' (JObj [(''maxAgeMs'', JNum 20000)]))
               (JStr ''BTC-USD'')
               \<lparr>agg_value = Num 60030, agg_method = ''median'', used = three_samples\<rparr>,
      content = Some (response_content (JStr ''BTC-USD'') 7500
               \<lparr>agg_value = Num 60030, agg_method = ''median'', used = three_samples\<rparr> True 500),
      sig = ''reply-sig''\<rparr>"

text \<open>A tag of the given name whose second element exists and is truthy (for a string:
  is not empty).\<close>

definition valued_tag :: "string \<Rightarrow> json list \<Rightarrow> bool" where
  "valued_tag name t \<longleftrightarrow>
     nth_opt t 0 = Some (JStr name) \<and> (case nth_opt t 1 of Some v \<Rightarrow> js_truthy v | None \<Rightarrow> False)"

definition ex_tagged_request :: NostrEvent where
  "ex_tagged_request =
     \<lparr>event_id = ''req8'', pubkey = ''alice'', created_at = 1700000000, kind = 38000,
      tags = [[JStr ''t'', JStr ''price-request''], [JStr ''pair''], [JStr ''pair'', JStr []],
              [JStr ''pair'', JStr ''ETH-USD''], [JStr ''pair'', JStr ''LTC-USD'']],
      content = Some (JObj [(''method'', JStr ''median'')]), sig = ''sig''\<rparr>"

text \<open>A member that is missing or \<open>null\<close>.\<close>

definition absent :: "json option \<Rightarrow> bool" where
  "absent x \<longleftrightarrow> x = None \<or> x = Some JNull"

definition is_awaiting :: "step_result \<Rightarrow> bool" where
  "is_awaiting r = (case r of Awaiting p \<Rightarrow> True | _ \<Rightarrow> False)"

definition ex_full_request :: NostrEvent where
  "ex_full_request =
     ex_request ''req2''
       (JObj [(''pair'', JStr ''BTC-USD''), (''method'', JStr ''median''),
              (''sources'', JArr [JStr ''kraken'', JStr ''binance'', JNum 7]),
              (''maxAgeMs'', JNum 90000)])"

definition ex_odd_request :: NostrEvent where
  "ex_odd_request =
     \<lparr>event_id = ''req3'', pubkey = ''alice'', created_at = 1700000000, kind = 38000,
      tags = [[JStr ''pair'', JStr ''ETH-USD'']],
      content = Some (JObj [(''method'', JStr ''fastest''), (''maxAgeMs'', JObj [])]),
      sig = ''sig''\<rparr>"

text \<open>A terminal event for a request: a response or an error that replies to it.\<close>

definition is_terminal_for :: "NostrEvent \<Rightarrow> relay_msg \<Rightarrow> bool" where
  "is_terminal_for req m =
     (case m of
        EVENT e \<Rightarrow> (kind e = KIND_PRICE_RES \<or> kind e = KIND_PRICE_ERR)
                   \<and> [JStr ''e'', JStr (event_id req), JStr ''reply''] \<in> set (tags e)
      | _ \<Rightarrow> False)"

text \<open>A request whose \<open>method\<close> is the object \<open>{"toString": 1}\<close>.\<close>

definition ex_unprintable_request :: NostrEvent where
  "ex_unprintable_request =
     ex_request ''req5'' (JObj [(''method'', JObj [(''toString'', JNum 1)])])"

text \<open>The fan-out of a plain request, waiting to be resumed.\<close>

definition ex_pending :: pending_fetch where
  "ex_pending =
     \<lparr>p_req = ex_request ''req6'' (JObj []), p_pair = JStr ''BTC-USD'',
      p_method = ''trimmed_mean'', p_sources = ALL_SOURCES\<rparr>"

text \<open>Two plain requests handled one after the other on a cold cache, each up to its
  wait for the fan-out.\<close>

definition after_two_cold_requests :: relay_state where
  "after_two_cold_requests =
     fst (snd (on_EVENT default_config ex_lib (ex_clock 5001) (ex_conn ''10.0.0.9'')
                 (ex_request ''req7'' (JObj []))
                 (fst (snd (on_EVENT default_config ex_lib (ex_clock 5000) (ex_conn ''10.0.0.7'')
                              (ex_request ''req6'' (JObj []))
                              (initial_state default_config ''sk''))))))"

text \<open>
  A text frame: a \<open>REQ\<close> whose subscription id is the letter e with an acute accent
  (code point 233, two bytes in UTF-8), padded with spaces to 64000 characters, which are
  64001 bytes.
\<close>

definition ex_long_frame :: inbound where
  "ex_long_frame =
     \<lparr>payload = map of_char ''[\"REQ\",\"'' @ [233] @ map of_char ''\"]'' @ replicate 63989 32,
      decoded = Some (REQ_frame [CHR 0xC3, CHR 0xA9] [])\<rparr>"

section \<open>Properties of rounding\<close>

text \<open>
  \<open>binade\<close> finds the power of two at or below a number, so \<open>fl\<close> rounds on the grid
  of the doubles of that size. Numbers on the grid, integers below \<open>2^53\<close> among them,
  are not changed by rounding.
\<close>

lemma two_powi_pos: "0 < (2::rat) powi e"
  by (simp add: zero_less_power_int)

lemma two_powi_less: "a < b \<Longrightarrow> (2::rat) powi a < 2 powi b"
  by (rule power_int_strict_increasing) simp_all

lemma two_powi_le: "a \<le> b \<Longrightarrow> (2::rat) powi a \<le> 2 powi b"
  by (rule power_int_increasing) simp_all

lemma two_powi_less_cancel: "(2::rat) powi a < 2 powi b \<Longrightarrow> a < b"
  using two_powi_le [of b a] by (cases "a < b") simp_all

lemma two_powi_diff: "(2::rat) powi a / 2 powi b = 2 powi (a - b)"
  by (simp add: power_int_diff)

lemma two_powi_add: "(2::rat) powi a * 2 powi b = 2 powi (a + b)"
  by (simp add: power_int_add)

lemma bitlen_powi_bounds:
  assumes "0 < (p::int)"
  shows "(2::rat) powi (bitlen p - 1) \<le> of_int p" and "of_int p < (2::rat) powi (bitlen p)"
proof -
  from bitlen_bounds [OF assms]
  have a: "2 ^ nat (bitlen p - 1) \<le> p" and b: "p < 2 ^ nat (bitlen p)" by auto
  have pos: "1 \<le> bitlen p"
    using assms compute_bitlen [of p] bitlen_nonneg [of "p div 2"] by simp
  have "(2::rat) powi (bitlen p - 1) = of_int (2 ^ nat (bitlen p - 1))"
    using pos by (simp add: power_int_def)
  also have "\<dots> \<le> of_int p" using a by (simp only: of_int_le_iff)
  finally show "(2::rat) powi (bitlen p - 1) \<le> of_int p" .
  have "(of_int p :: rat) < of_int (2 ^ nat (bitlen p))" using b by (simp only: of_int_less_iff)
  also have "\<dots> = (2::rat) powi (bitlen p)"
    using pos by (simp add: power_int_def)
  finally show "of_int p < (2::rat) powi (bitlen p)" .
qed

lemma binade_bracket:
  assumes "x \<noteq> 0"
  shows "(2::rat) powi (binade x) \<le> \<bar>x\<bar> \<and> \<bar>x\<bar> < 2 powi (binade x + 1)"
proof -
  obtain p q where pq: "quotient_of \<bar>x\<bar> = (p, q)" by (cases "quotient_of \<bar>x\<bar>")
  have q: "0 < q" using quotient_of_denom_pos [OF pq] .
  have xe: "\<bar>x\<bar> = of_int p / of_int q" using quotient_of_div [OF pq] .
  have "0 < \<bar>x\<bar>" using assms by simp
  then have p: "0 < p" using q unfolding xe by (simp add: zero_less_divide_iff)
  let ?d = "bitlen p - bitlen q"
  note P = bitlen_powi_bounds [OF p] and Q = bitlen_powi_bounds [OF q]
  have "of_int p / of_int q < (2::rat) powi (bitlen p) / 2 powi (bitlen q - 1)"
    using P(2) Q(1) p two_powi_pos [of "bitlen q - 1"] by (intro frac_less) simp_all
  then have up: "\<bar>x\<bar> < 2 powi (?d + 1)"
    unfolding xe two_powi_diff by (simp add: algebra_simps)
  have "(2::rat) powi (bitlen p - 1) / 2 powi (bitlen q) < of_int p / of_int q"
    using P(1) Q(2) q two_powi_pos [of "bitlen p - 1"] by (intro frac_less2) simp_all
  then have lo: "2 powi (?d - 1) < \<bar>x\<bar>"
    unfolding xe two_powi_diff by (simp add: algebra_simps)
  show ?thesis
  proof (cases "2 powi ?d \<le> \<bar>x\<bar>")
    case True
    then have "binade x = ?d" by (simp add: binade_def pq)
    then show ?thesis using True up by simp
  next
    case False
    then have "binade x = ?d - 1" by (simp add: binade_def pq)
    then show ?thesis using False lo by simp
  qed
qed

lemma binade_eqI:
  assumes "(2::rat) powi e \<le> \<bar>x\<bar>" and "\<bar>x\<bar> < 2 powi (e + 1)"
  shows "binade x = e"
proof -
  have "x \<noteq> 0"
  proof
    assume "x = 0"
    then have "(2::rat) powi e \<le> 0" using assms(1) by simp
    then show False using two_powi_pos [of e] by linarith
  qed
  from binade_bracket [OF this]
  have b1: "2 powi (binade x) \<le> \<bar>x\<bar>" and b2: "\<bar>x\<bar> < 2 powi (binade x + 1)" by auto
  have "(2::rat) powi e < 2 powi (binade x + 1)" using assms(1) b2 by simp
  then have "e < binade x + 1" by (rule two_powi_less_cancel)
  moreover have "(2::rat) powi (binade x) < 2 powi (e + 1)" using assms(2) b1 by simp
  then have "binade x < e + 1" by (rule two_powi_less_cancel)
  ultimately show ?thesis by simp
qed

lemma round_half_even_of_int: "round_half_even (of_int k) = k"
  by (simp add: round_half_even_def)

lemma round_half_even_bounds:
  "\<lfloor>x\<rfloor> \<le> round_half_even x" "round_half_even x \<le> \<lceil>x\<rceil>"
proof -
  show "\<lfloor>x\<rfloor> \<le> round_half_even x" by (simp add: round_half_even_def Let_def)
  show "round_half_even x \<le> \<lceil>x\<rceil>"
  proof (cases "x = of_int \<lfloor>x\<rfloor>")
    case True
    then have "round_half_even x = \<lfloor>x\<rfloor>"
      using round_half_even_of_int [of "\<lfloor>x\<rfloor>"] by simp
    then show ?thesis by (simp add: floor_le_ceiling)
  next
    case False
    then have "\<lceil>x\<rceil> = \<lfloor>x\<rfloor> + 1" by (simp add: ceiling_altdef)
    then show ?thesis by (simp add: round_half_even_def Let_def)
  qed
qed

lemma round_half_even_abs:
  assumes "\<bar>x\<bar> \<le> of_int N"
  shows "\<bar>round_half_even x\<bar> \<le> N"
proof -
  have "x \<le> of_int N" and "of_int (- N) \<le> x" using assms by auto
  then have "\<lceil>x\<rceil> \<le> N" and "- N \<le> \<lfloor>x\<rfloor>" by (simp_all add: ceiling_le_iff le_floor_iff)
  then show ?thesis using round_half_even_bounds [of x] by simp
qed

lemma round_half_even_div:
  assumes "0 < b"
  shows "round_half_even (of_int a / of_int b) =
    (if 2 * (a mod b) < b then a div b
     else if b < 2 * (a mod b) then a div b + 1
     else if even (a div b) then a div b else a div b + 1)"
proof -
  have f: "\<lfloor>(of_int a / of_int b :: rat)\<rfloor> = a div b" by (rule floor_divide_of_int_eq)
  have "(of_int a :: rat) = of_int (a div b * b + a mod b)" by (simp only: div_mult_mod_eq)
  also have "\<dots> = of_int (a div b) * of_int b + of_int (a mod b)"
    by (simp only: of_int_add of_int_mult)
  finally have "(of_int a / of_int b :: rat) = of_int (a div b) + of_int (a mod b) / of_int b"
    using assms by (simp add: field_simps)
  then have r: "(of_int a / of_int b :: rat) - of_int (a div b) = of_int (a mod b) / of_int b"
    by simp
  have lt: "(of_int (a mod b) / of_int b < (1 / 2 :: rat)) = (2 * (a mod b) < b)"
  proof -
    have "(of_int (a mod b) / of_int b < (1 / 2 :: rat)) = ((of_int (2 * (a mod b)) :: rat) < of_int b)"
      using assms by (simp add: field_simps)
    then show ?thesis by (simp only: of_int_less_iff)
  qed
  have gt: "((1 / 2 :: rat) < of_int (a mod b) / of_int b) = (b < 2 * (a mod b))"
  proof -
    have "((1 / 2 :: rat) < of_int (a mod b) / of_int b) = ((of_int b :: rat) < of_int (2 * (a mod b)))"
      using assms by (simp add: field_simps)
    then show ?thesis by (simp only: of_int_less_iff)
  qed
  show ?thesis unfolding round_half_even_def f Let_def r lt gt ..
qed

lemma round_half_even_numeral [simp]:
  "round_half_even (numeral a / numeral b) =
    (if 2 * (numeral a mod numeral b) < (numeral b :: int) then numeral a div numeral b
     else if numeral b < 2 * (numeral a mod numeral b :: int) then numeral a div numeral b + 1
     else if even (numeral a div numeral b :: int) then numeral a div numeral b
     else numeral a div numeral b + 1)"
  "round_half_even (- (numeral a / numeral b)) =
    (if 2 * (- numeral a mod numeral b) < (numeral b :: int) then - numeral a div numeral b
     else if numeral b < 2 * (- numeral a mod numeral b :: int) then - numeral a div numeral b + 1
     else if even (- numeral a div numeral b :: int) then - numeral a div numeral b
     else - numeral a div numeral b + 1)"
  "round_half_even (numeral a) = numeral a"
  "round_half_even (- numeral a) = - numeral a"
  "round_half_even 0 = 0"
  "round_half_even 1 = 1"
  using round_half_even_div [of "numeral b" "numeral a"]
    round_half_even_div [of "numeral b" "- numeral a"]
    round_half_even_of_int [of "numeral a"] round_half_even_of_int [of "- numeral a"]
    round_half_even_of_int [of 0] round_half_even_of_int [of 1]
  by simp_all

lemma fl_normal:
  assumes lo: "(2::rat) powi e \<le> \<bar>x\<bar>" and hi: "\<bar>x\<bar> < 2 powi (e + 1)"
    and e1: "- 1022 \<le> e" and e2: "e \<le> 1022"
  shows "fl x = Num (of_int (round_half_even (x / 2 powi (e - 52))) * 2 powi (e - 52))"
proof -
  have x0: "x \<noteq> 0"
  proof
    assume "x = 0"
    then have "(2::rat) powi e \<le> 0" using lo by simp
    then show False using two_powi_pos [of e] by linarith
  qed
  have b: "binade x = e" using lo hi by (rule binade_eqI)
  let ?ulp = "(2::rat) powi (e - 52)"
  let ?m = "round_half_even (x / ?ulp)"
  have ulp: "0 < ?ulp" by (rule two_powi_pos)
  have "\<bar>x / ?ulp\<bar> = \<bar>x\<bar> / ?ulp" using ulp by simp
  also have "\<dots> \<le> 2 powi (e + 1) / ?ulp" using hi ulp by (intro divide_right_mono) simp_all
  also have "\<dots> = of_int (2 ^ 53)" unfolding two_powi_diff by simp
  finally have "\<bar>?m\<bar> \<le> 2 ^ 53" by (rule round_half_even_abs)
  then have "\<bar>of_int ?m :: rat\<bar> \<le> of_int (2 ^ 53)"
    by (simp only: of_int_abs [symmetric] of_int_le_iff)
  then have "\<bar>of_int ?m * ?ulp\<bar> \<le> of_int (2 ^ 53) * ?ulp"
    using ulp by (simp add: abs_mult)
  also have "\<dots> = 2 powi 53 * ?ulp" by simp
  also have "\<dots> = 2 powi (e + 1)" unfolding two_powi_add by (simp add: add.commute)
  also have "\<dots> \<le> 2 powi 1023" using e2 by (intro two_powi_le) simp
  also have "\<dots> < 2 powi 1024" by (intro two_powi_less) simp
  also have "\<dots> = 2 ^ 1024" by (simp only: power_int_numeral)
  finally have r: "\<bar>of_int ?m * ?ulp\<bar> < 2 ^ 1024" .
  then have "\<not> 2 ^ 1024 \<le> of_int ?m * ?ulp" "\<not> of_int ?m * ?ulp \<le> - (2 ^ 1024)"
    by (simp_all only: abs_less_iff not_le) simp_all
  then show ?thesis using x0 e1 by (simp only: fl_def b Let_def max_absorb1 if_False)
qed

lemma fl_dyadic:
  assumes k: "\<bar>k\<bar> < 2 ^ 53" and s1: "- 1074 \<le> s" and s2: "s \<le> 970"
  shows "fl (of_int k * 2 powi s) = Num (of_int k * 2 powi s)"
proof (cases "k = 0")
  case True
  then show ?thesis by (simp add: fl_def)
next
  case False
  let ?x = "of_int k * (2::rat) powi s"
  have x0: "?x \<noteq> 0" using False two_powi_pos [of s] by simp
  have ax: "\<bar>?x\<bar> = of_int \<bar>k\<bar> * 2 powi s" using two_powi_pos [of s] by (simp add: abs_mult)
  have "(of_int \<bar>k\<bar> :: rat) < of_int (2 ^ 53)" using k by (simp only: of_int_less_iff)
  then have "of_int \<bar>k\<bar> * 2 powi s < (of_int (2 ^ 53) :: rat) * 2 powi s"
    using two_powi_pos [of s] by simp
  also have "\<dots> = 2 powi 53 * 2 powi s" by simp
  also have "\<dots> = 2 powi (53 + s)" unfolding two_powi_add ..
  finally have xlt: "\<bar>?x\<bar> < 2 powi (53 + s)" unfolding ax .
  let ?e = "max (binade ?x) (- 1022)"
  have "2 powi (binade ?x) \<le> \<bar>?x\<bar>" using binade_bracket [OF x0] by simp
  then have "(2::rat) powi (binade ?x) < 2 powi (53 + s)" using xlt by simp
  then have "binade ?x < 53 + s" by (rule two_powi_less_cancel)
  then have es: "?e - 52 \<le> s" using s1 by simp
  let ?ulp = "(2::rat) powi (?e - 52)"
  have "?x / ?ulp = of_int k * (2 powi s / ?ulp)" by simp
  also have "\<dots> = of_int k * 2 powi (s - (?e - 52))" unfolding two_powi_diff ..
  also have "\<dots> = of_int k * of_int (2 ^ nat (s - (?e - 52)))"
    using es by (simp add: power_int_def)
  also have "\<dots> = of_int (k * 2 ^ nat (s - (?e - 52)))" by simp
  finally have "round_half_even (?x / ?ulp) = k * 2 ^ nat (s - (?e - 52))"
    by (simp only: round_half_even_of_int)
  then have "of_int (round_half_even (?x / ?ulp)) * ?ulp
      = of_int k * (of_int (2 ^ nat (s - (?e - 52))) * ?ulp)" by simp
  also have "of_int (2 ^ nat (s - (?e - 52))) * ?ulp = 2 powi (s - (?e - 52)) * ?ulp"
    using es by (simp add: power_int_def)
  also have "\<dots> = 2 powi s" unfolding two_powi_add by simp
  finally have r: "of_int (round_half_even (?x / ?ulp)) * ?ulp = ?x" .
  have "\<bar>?x\<bar> < 2 powi 1023" using xlt two_powi_le [of "53 + s" 1023] s2 by simp
  also have "\<dots> < 2 powi 1024" by (intro two_powi_less) simp
  also have "\<dots> = 2 ^ 1024" by (simp only: power_int_numeral)
  finally have "\<bar>?x\<bar> < 2 ^ 1024" .
  then have "\<not> 2 ^ 1024 \<le> ?x" "\<not> ?x \<le> - (2 ^ 1024)"
    by (simp_all only: abs_less_iff not_le) simp_all
  then show ?thesis using x0 by (simp only: fl_def Let_def r if_False)
qed

lemma fl_of_int: "\<bar>k\<bar> < 2 ^ 53 \<Longrightarrow> fl (of_int k) = Num (of_int k)"
  using fl_dyadic [of k 0] by simp

lemma fl_numeral [simp]: "(numeral n :: int) < 2 ^ 53 \<Longrightarrow> fl (numeral n) = Num (numeral n)"
  using fl_of_int [of "numeral n"] by simp

lemma fl_zero [simp]: "fl 0 = Num 0"
  by (simp add: fl_def)

lemma fl_one [simp]: "fl 1 = Num 1"
  using fl_of_int [of 1] by simp

lemma fl_neg_numeral [simp]: "(numeral n :: int) < 2 ^ 53 \<Longrightarrow> fl (- numeral n) = Num (- numeral n)"
  using fl_of_int [of "- numeral n"] by simp

lemmas fl_simps = fl_numeral fl_neg_numeral

section \<open>Properties of the aggregator\<close>

lemma foldl_js_add_exact:
  assumes "\<forall>i \<le> length vs. fl (a + sum_list (take i vs)) = Num (a + sum_list (take i vs))"
  shows "foldl js_add (Num a) (map Num vs) = Num (a + sum_list vs)"
  using assms
proof (induction vs arbitrary: a)
  case Nil
  then show ?case by simp
next
  case (Cons v vs)
  from Cons.prems have "fl (a + sum_list (take 1 (v # vs))) = Num (a + sum_list (take 1 (v # vs)))"
    by (metis One_nat_def Suc_leI length_Cons zero_less_Suc)
  then have step: "js_add (Num a) (Num v) = Num (a + v)" by simp
  have "\<forall>i \<le> length vs. fl ((a + v) + sum_list (take i vs)) = Num ((a + v) + sum_list (take i vs))"
  proof (intro allI impI)
    fix i assume "i \<le> length vs"
    then have "Suc i \<le> length (v # vs)" by simp
    with Cons.prems
    have "fl (a + sum_list (take (Suc i) (v # vs))) = Num (a + sum_list (take (Suc i) (v # vs)))"
      by blast
    then show "fl ((a + v) + sum_list (take i vs)) = Num ((a + v) + sum_list (take i vs))"
      by (simp add: add.assoc)
  qed
  from Cons.IH [OF this] step show ?case by (simp add: add.assoc)
qed

lemma mean_exact_sums:
  assumes "vs \<noteq> []"
      and "\<forall>i \<le> length vs. fl (sum_list (take i vs)) = Num (sum_list (take i vs))"
  shows "js_div (foldl js_add (Num 0) (map Num vs)) (Num (of_nat (length vs)))
           = fl (sum_list vs / of_nat (length vs))"
proof -
  have "foldl js_add (Num 0) (map Num vs) = Num (0 + sum_list vs)"
    using assms(2) by (intro foldl_js_add_exact) simp
  then show ?thesis using assms(1) by simp
qed

lemma slice_split: "2 \<le> length xs \<Longrightarrow> xs = hd xs # slice_1_m1 xs @ [last xs]"
proof -
  assume len: "2 \<le> length xs"
  then obtain x ys where xs: "xs = x # ys" by (cases xs) auto
  with len have ne: "ys \<noteq> []" by auto
  then have "ys = butlast ys @ [last ys]" by simp
  moreover have "slice_1_m1 xs = butlast ys"
    by (simp add: slice_1_m1_def xs butlast_conv_take)
  ultimately show ?thesis using xs ne by simp
qed

lemma sorted_key_ends:
  assumes "sorted (map f (lo # mid @ [hi]))" and "s \<in> set (lo # mid @ [hi])"
  shows "f lo \<le> f s \<and> f s \<le> f hi"
  using assms by (auto simp: sorted_append)

lemma median_middle:
  assumes "vs \<noteq> []"
  shows "median vs =
     (if even (length vs)
      then js_div (js_add (Num (sort vs ! (length vs div 2 - 1))) (Num (sort vs ! (length vs div 2))))
             (Num 2)
      else Num (sort vs ! (length vs div 2)))"
proof -
  let ?n = "length vs"
  from assms have pos: "0 < ?n" by simp
  have mid: "nat (int ?n div 2) = ?n div 2" by (simp add: zdiv_int)
  have lt: "int ?n div 2 < int ?n" using pos by presburger
  show ?thesis
  proof (cases "even ?n")
    case False
    then show ?thesis using lt mid by (simp add: median_def Let_def js_at_def even_iff_mod_2_eq_zero)
  next
    case True
    with pos have two: "2 \<le> ?n" by presburger
    then have one: "1 \<le> int ?n div 2" by simp
    have m1: "nat (int ?n div 2 - 1) = ?n div 2 - 1" using one by (simp add: nat_diff_distrib' zdiv_int)
    show ?thesis
      using True lt mid one m1 by (simp add: median_def Let_def js_at_def even_iff_mod_2_eq_zero)
  qed
qed

text \<open>
  Claim C1, as the code has it. Values are doubles and every sum and quotient is rounded
  to a double. For a non-empty list of samples:
  if the method is \<open>trimmed_mean\<close> and there are at least five samples, the samples
  sorted by value (stably) are a lowest one, a middle part and a highest one; the
  middle part is \<open>used\<close>, so exactly those two extremes are missing from it, and the
  value is the arithmetic mean of the middle part, that is their sum, taken from left to
  right, divided by their number, labelled \<open>trimmed_mean\<close>.
  Otherwise, with at least three samples the result is the median of all values,
  labelled \<open>median\<close>: the middle one of the sorted values when their number is odd, and
  half the sum of the two middle ones when it is even. With one or two samples it is
  their arithmetic mean, labelled \<open>mean\<close>. In both cases \<open>used\<close> is the input.
  The requested method plays no part beyond the first rule: a request for \<open>median\<close>
  or \<open>mean\<close> is answered by the number of samples alone.
  Where no running sum is rounded, the mean is the exact mean \<open>sum / n\<close> rounded once,
  and where the sum of the two middle values is not rounded, the median of an even
  number of values is their exact half-sum rounded once.
\<close>

theorem aggregate_selection_ladder:
  assumes "smpls \<noteq> []"
  shows "(method = ''trimmed_mean'' \<and> 5 \<le> length smpls \<longrightarrow>
           (\<exists>lo hi mid.
              sort_key svalue smpls = lo # mid @ [hi]
              \<and> (\<forall>s \<in> set smpls. svalue lo \<le> svalue s \<and> svalue s \<le> svalue hi)
              \<and> mset smpls = mset mid + {#lo, hi#}
              \<and> aggregate smpls method =
                  Inr \<lparr>agg_value = js_div (foldl js_add (Num 0) (map (\<lambda>s. Num (svalue s)) mid))
                                       (Num (of_nat (length mid))),
                       agg_method = ''trimmed_mean'', used = mid\<rparr>))
       \<and> (\<not> (method = ''trimmed_mean'' \<and> 5 \<le> length smpls) \<and> 3 \<le> length smpls \<longrightarrow>
           aggregate smpls method =
             Inr \<lparr>agg_value =
                    (if even (length smpls)
                     then js_div (js_add (Num (sort (map svalue smpls) ! (length smpls div 2 - 1)))
                                         (Num (sort (map svalue smpls) ! (length smpls div 2))))
                            (Num 2)
                     else Num (sort (map svalue smpls) ! (length smpls div 2))),
                  agg_method = ''median'', used = smpls\<rparr>)
       \<and> (\<not> (method = ''trimmed_mean'' \<and> 5 \<le> length smpls) \<and> length smpls < 3 \<longrightarrow>
           aggregate smpls method =
             Inr \<lparr>agg_value = js_div (foldl js_add (Num 0) (map (\<lambda>s. Num (svalue s)) smpls))
                                  (Num (of_nat (length smpls))),
                  agg_method = ''mean'', used = smpls\<rparr>)
       \<and> (\<forall>vs. vs \<noteq> []
              \<and> (\<forall>i \<le> length vs. fl (sum_list (take i vs)) = Num (sum_list (take i vs))) \<longrightarrow>
            js_div (foldl js_add (Num 0) (map Num vs)) (Num (of_nat (length vs)))
              = fl (sum_list vs / of_nat (length vs)))
       \<and> (\<forall>a b. fl (a + b) = Num (a + b) \<longrightarrow>
            js_div (js_add (Num a) (Num b)) (Num 2) = fl ((a + b) / 2))"
proof (intro conjI impI allI)
  assume tm: "method = ''trimmed_mean'' \<and> 5 \<le> length smpls"
  define S where "S = sort_key svalue smpls"
  define mid where "mid = slice_1_m1 S"
  have lenS: "length S = length smpls" by (simp add: S_def)
  with tm have split: "S = hd S # mid @ [last S]"
    unfolding mid_def by (intro slice_split) simp
  have srt: "sorted (map svalue (hd S # mid @ [last S]))"
    using sorted_sort_key [of svalue smpls] split by (simp add: S_def)
  have setS: "set smpls = set (hd S # mid @ [last S])"
    using split set_sort [of svalue smpls] by (simp add: S_def)
  have ends: "\<forall>s \<in> set smpls. svalue (hd S) \<le> svalue s \<and> svalue s \<le> svalue (last S)"
    using sorted_key_ends [OF srt] setS by blast
  have "mset smpls = mset S" by (simp add: S_def)
  also have "\<dots> = mset (hd S # mid @ [last S])" using split by simp
  finally have ms: "mset smpls = mset mid + {#hd S, last S#}" by simp
  have agg: "aggregate smpls method =
       Inr \<lparr>agg_value = js_div (foldl js_add (Num 0) (map (\<lambda>s. Num (svalue s)) mid))
                            (Num (of_nat (length mid))),
            agg_method = ''trimmed_mean'', used = mid\<rparr>"
    using tm assms by (simp add: aggregate_def Let_def S_def mid_def mean_def comp_def)
  show "\<exists>lo hi mid.
          sort_key svalue smpls = lo # mid @ [hi]
          \<and> (\<forall>s \<in> set smpls. svalue lo \<le> svalue s \<and> svalue s \<le> svalue hi)
          \<and> mset smpls = mset mid + {#lo, hi#}
          \<and> aggregate smpls method =
              Inr \<lparr>agg_value = js_div (foldl js_add (Num 0) (map (\<lambda>s. Num (svalue s)) mid))
                                   (Num (of_nat (length mid))),
                   agg_method = ''trimmed_mean'', used = mid\<rparr>"
    using split ends ms agg unfolding S_def by blast
next
  assume h: "\<not> (method = ''trimmed_mean'' \<and> 5 \<le> length smpls) \<and> 3 \<le> length smpls"
  from assms have "map svalue smpls \<noteq> []" by simp
  from median_middle [OF this] h assms
  show "aggregate smpls method =
             Inr \<lparr>agg_value =
                    (if even (length smpls)
                     then js_div (js_add (Num (sort (map svalue smpls) ! (length smpls div 2 - 1)))
                                         (Num (sort (map svalue smpls) ! (length smpls div 2))))
                            (Num 2)
                     else Num (sort (map svalue smpls) ! (length smpls div 2))),
                  agg_method = ''median'', used = smpls\<rparr>"
    by (auto simp: aggregate_def Let_def)
next
  assume "\<not> (method = ''trimmed_mean'' \<and> 5 \<le> length smpls) \<and> length smpls < 3"
  then show "aggregate smpls method =
             Inr \<lparr>agg_value = js_div (foldl js_add (Num 0) (map (\<lambda>s. Num (svalue s)) smpls))
                                  (Num (of_nat (length smpls))),
                  agg_method = ''mean'', used = smpls\<rparr>"
    using assms by (auto simp: aggregate_def Let_def mean_def comp_def)
next
  fix vs :: "rat list"
  assume "vs \<noteq> []
              \<and> (\<forall>i \<le> length vs. fl (sum_list (take i vs)) = Num (sum_list (take i vs)))"
  then show "js_div (foldl js_add (Num 0) (map Num vs)) (Num (of_nat (length vs)))
              = fl (sum_list vs / of_nat (length vs))"
    using mean_exact_sums by blast
next
  fix a b :: rat
  assume "fl (a + b) = Num (a + b)"
  then show "js_div (js_add (Num a) (Num b)) (Num 2) = fl ((a + b) / 2)" by simp
qed

lemma ex_arithmetic:
  "fl (180061 / 3) = Num (8249131800373931 / 137438953472)"
  by (simp add: fl_normal [where e = 15])

theorem aggregate_selection_ladder_witness:
  "five_samples \<noteq> [] \<and> 5 \<le> length five_samples
   \<and> aggregate five_samples ''trimmed_mean'' =
       Inr \<lparr>agg_value = Num (8249131800373931 / 137438953472), agg_method = ''trimmed_mean'',
            used = [ex_sample ''coinbase'' 60010, ex_sample ''bitstamp'' 60021,
                    ex_sample ''kraken'' 60030]\<rparr>
   \<and> aggregate four_samples ''trimmed_mean'' =
       Inr \<lparr>agg_value = Num 60015, agg_method = ''median'', used = four_samples\<rparr>
   \<and> aggregate three_samples ''median'' =
       Inr \<lparr>agg_value = Num 60030, agg_method = ''median'', used = three_samples\<rparr>
   \<and> aggregate two_samples ''mean'' =
       Inr \<lparr>agg_value = Num 60050, agg_method = ''mean'', used = two_samples\<rparr>
   \<and> js_div (foldl js_add (Num 0) (map Num [60010, 60021, 60030])) (Num 3) = fl (180061 / 3)
   \<and> js_div (js_add (Num 60010) (Num 60020)) (Num 2) = fl (60015)"
proof -
  note inst = aggregate_selection_ladder
  have five: "aggregate five_samples ''trimmed_mean'' =
       Inr \<lparr>agg_value = Num (8249131800373931 / 137438953472), agg_method = ''trimmed_mean'',
            used = [ex_sample ''coinbase'' 60010, ex_sample ''bitstamp'' 60021,
                    ex_sample ''kraken'' 60030]\<rparr>"
    using inst [of five_samples "''trimmed_mean''"]
    by (auto simp: five_samples_def ex_sample_def ex_arithmetic fl_simps)
  have four: "aggregate four_samples ''trimmed_mean'' =
       Inr \<lparr>agg_value = Num 60015, agg_method = ''median'', used = four_samples\<rparr>"
    using inst [of four_samples "''trimmed_mean''"]
    by (simp add: four_samples_def ex_sample_def fl_simps)
  have three: "aggregate three_samples ''median'' =
       Inr \<lparr>agg_value = Num 60030, agg_method = ''median'', used = three_samples\<rparr>"
    using inst [of three_samples "''median''"]
    by (simp add: three_samples_def ex_sample_def)
  have two: "aggregate two_samples ''mean'' =
       Inr \<lparr>agg_value = Num 60050, agg_method = ''mean'', used = two_samples\<rparr>"
    using inst [of two_samples "''mean''"]
    by (simp add: two_samples_def ex_sample_def fl_simps)
  have sums: "\<forall>i \<le> length [60010, 60021, 60030 :: rat].
      fl (sum_list (take i [60010, 60021, 60030])) = Num (sum_list (take i [60010, 60021, 60030]))"
  proof (intro allI impI)
    fix i :: nat
    assume "i \<le> length [60010, 60021, 60030 :: rat]"
    then have "i = 0 \<or> i = 1 \<or> i = 2 \<or> i = 3" by auto
    then show "fl (sum_list (take i [60010, 60021, 60030])) = Num (sum_list (take i [60010, 60021, 60030]))"
      by (auto simp: fl_simps numeral_2_eq_2 numeral_3_eq_3)
  qed
  have third: "js_div (foldl js_add (Num 0) (map Num [60010, 60021, 60030])) (Num 3) = fl (180061 / 3)"
  proof -
    from inst [of two_samples "''mean''"]
    have "\<forall>vs. vs \<noteq> []
              \<and> (\<forall>i \<le> length vs. fl (sum_list (take i vs)) = Num (sum_list (take i vs))) \<longrightarrow>
            js_div (foldl js_add (Num 0) (map Num vs)) (Num (of_nat (length vs)))
              = fl (sum_list vs / of_nat (length vs))"
      by (simp add: two_samples_def)
    from this [rule_format, of "[60010, 60021, 60030]"] sums show ?thesis by simp
  qed
  have half: "js_div (js_add (Num 60010) (Num 60020)) (Num 2) = fl (60015)"
    using inst [of two_samples "''mean''"]
    by (simp add: two_samples_def fl_simps)
  show ?thesis using five four three two third half by (simp add: five_samples_def)
qed

text \<open>
  The claim as written adds that a direct request for \<open>mean\<close> is honoured as \<open>mean\<close>.
  With three samples it is not: the answer is their median, labelled \<open>median\<close>, and
  differs from their mean.
\<close>

theorem mean_request_not_honoured:
  "aggregate three_samples ''mean'' =
     Inr \<lparr>agg_value = Num 60030, agg_method = ''median'', used = three_samples\<rparr>
   \<and> mean (map svalue three_samples) = Num 60210"
  by (simp add: aggregate_def three_samples_def ex_sample_def median_def mean_def js_at_def
      fl_simps)

section \<open>Properties of the event store\<close>

lemma storeEvent_drop:
  "storeEvent cfg store e =
     drop (length (store @ [e]) - MAX_STORED_EVENTS cfg) (store @ [e])"
  by (simp add: storeEvent_def Let_def)

lemma drop_surplus_twice:
  fixes xs ys :: "'a list"
  shows "drop (length (drop (length xs - M) xs @ ys) - M) (drop (length xs - M) xs @ ys)
         = drop (length (xs @ ys) - M) (xs @ ys)"
proof (cases "length xs \<le> M")
  case True
  then show ?thesis by simp
next
  case False
  then have "length (drop (length xs - M) xs) = M" by simp
  then have l: "drop (length (drop (length xs - M) xs @ ys) - M) (drop (length xs - M) xs @ ys)
      = drop (length ys) (drop (length xs - M) xs @ ys)" by simp
  have "length (xs @ ys) - M = length ys + (length xs - M)" using False by simp
  then have "drop (length (xs @ ys) - M) (xs @ ys)
      = drop (length ys) (drop (length xs - M) (xs @ ys))"
    by (simp only: drop_drop)
  also have "\<dots> = drop (length ys) (drop (length xs - M) xs @ ys)" by simp
  finally show ?thesis using l by simp
qed

lemma store_all_drop:
  assumes "length store \<le> MAX_STORED_EVENTS cfg"
  shows "store_all cfg store evts =
     drop (length (store @ evts) - MAX_STORED_EVENTS cfg) (store @ evts)"
  using assms
proof (induction evts arbitrary: store)
  case Nil
  then show ?case by (simp add: store_all_def)
next
  case (Cons e evts)
  let ?M = "MAX_STORED_EVENTS cfg"
  let ?s = "storeEvent cfg store e"
  have s: "?s = drop (length (store @ [e]) - ?M) (store @ [e])" by (rule storeEvent_drop)
  have "length ?s \<le> ?M" unfolding s by simp
  then have "store_all cfg ?s evts = drop (length (?s @ evts) - ?M) (?s @ evts)"
    by (rule Cons.IH)
  also have "\<dots> = drop (length ((store @ [e]) @ evts) - ?M) ((store @ [e]) @ evts)"
    unfolding s by (rule drop_surplus_twice)
  finally show ?case by (simp add: store_all_def)
qed

text \<open>
  Claim C6. Starting from a store within capacity (the empty store at start-up is one),
  once more than \<open>MAX_STORED_EVENTS\<close> events have been stored the store holds exactly
  \<open>MAX_STORED_EVENTS\<close> events: the most recent ones, in arrival order, the older ones
  having been dropped from the head.
\<close>

theorem store_keeps_most_recent:
  assumes "length store \<le> MAX_STORED_EVENTS cfg"
      and "MAX_STORED_EVENTS cfg < length (store @ evts)"
  shows "length (store_all cfg store evts) = MAX_STORED_EVENTS cfg
         \<and> store_all cfg store evts
             = drop (length (store @ evts) - MAX_STORED_EVENTS cfg) (store @ evts)"
  using assms store_all_drop [of store cfg evts] by simp

theorem store_keeps_most_recent_witness:
  "length ([] :: NostrEvent list) \<le> MAX_STORED_EVENTS (default_config\<lparr>MAX_STORED_EVENTS := 2\<rparr>)
   \<and> store_all (default_config\<lparr>MAX_STORED_EVENTS := 2\<rparr>) []
        [ex_event ''e1'' 1, ex_event ''e2'' 1, ex_event ''e3'' 38000]
      = [ex_event ''e2'' 1, ex_event ''e3'' 38000]"
  using store_keeps_most_recent [of "[]" "default_config\<lparr>MAX_STORED_EVENTS := 2\<rparr>"
           "[ex_event ''e1'' 1, ex_event ''e2'' 1, ex_event ''e3'' 38000]"]
  by (simp add: default_config_def)

section \<open>Properties of the rate limiter\<close>



lemma allow_step:
  "fst (allow rl key t) = (\<not> js_lt (refilled rl key t) (Num 1))"
  "buckets (snd (allow rl key t)) =
     (buckets rl)(key \<mapsto> \<lparr>tokens = (if js_lt (refilled rl key t) (Num 1) then refilled rl key t
                                      else js_sub (refilled rl key t) (Num 1)), last_ms = t\<rparr>)"
  "rps (snd (allow rl key t)) = rps rl"
  "burst (snd (allow rl key t)) = burst rl"
  by (auto simp: allow_def refilled_def bucket_at_def Let_def split: option.splits)
















section \<open>Properties of the EVENT path\<close>

text \<open>
  Claim C10. For an event whose signature verifies: when the IP bucket admits and the
  pubkey bucket denies, the sender gets \<open>OK false "rate limited (pubkey)"\<close>, nothing is
  stored or broadcast, and the IP bucket is left with its refilled count less one, the
  token it consumed not being given back; when the IP bucket denies, the sender gets
  \<open>OK false "rate limited (ip)"\<close> and the pubkey limiter is left as it was.
\<close>

theorem pubkey_denial_keeps_ip_token:
  assumes "verifyEvent L evt"
  shows "(fst (allow (ipLimiter st) (''ip:'' @ ip ws) (at_ip clk))
          \<and> \<not> fst (allow (pubLimiter st) (''pub:'' @ pubkey evt) (at_pub clk)) \<longrightarrow>
            (\<exists>st'. on_EVENT cfg L clk ws evt st =
                     (send ws (OK (event_id evt) False ''rate limited (pubkey)''), st', Finished)
                 \<and> events st' = events st \<and> broadcasted st' = broadcasted st
                 \<and> buckets (ipLimiter st') (''ip:'' @ ip ws) =
                     Some \<lparr>tokens = js_sub (refilled (ipLimiter st) (''ip:'' @ ip ws) (at_ip clk))
                                             (Num 1),
                           last_ms = at_ip clk\<rparr>))
       \<and> (\<not> fst (allow (ipLimiter st) (''ip:'' @ ip ws) (at_ip clk)) \<longrightarrow>
            (\<exists>st'. on_EVENT cfg L clk ws evt st =
                     (send ws (OK (event_id evt) False ''rate limited (ip)''), st', Finished)
                 \<and> events st' = events st \<and> broadcasted st' = broadcasted st
                 \<and> pubLimiter st' = pubLimiter st))"
  using assms
  by (simp add: on_EVENT_def Let_def split_beta allow_step)

theorem pubkey_denial_keeps_ip_token_witness:
  "verifyEvent ex_lib (ex_event ''e2'' 1)
   \<and> fst (allow (ipLimiter after_first_event) (''ip:'' @ ip (ex_conn ''10.0.0.9'')) 5000)
   \<and> \<not> fst (allow (pubLimiter after_first_event) (''pub:'' @ pubkey (ex_event ''e2'' 1)) 5000)
   \<and> sent (fst (on_EVENT one_token_config ex_lib (ex_clock 5000) (ex_conn ''10.0.0.9'')
                  (ex_event ''e2'' 1) after_first_event))
       = [OK ''e2'' False ''rate limited (pubkey)'']
   \<and> buckets (ipLimiter (fst (snd (on_EVENT one_token_config ex_lib (ex_clock 5000)
                  (ex_conn ''10.0.0.9'') (ex_event ''e2'' 1) after_first_event)))) ''ip:10.0.0.9''
       = Some \<lparr>tokens = Num 0, last_ms = 5000\<rparr>"
proof -
  have v: "verifyEvent ex_lib (ex_event ''e2'' 1)"
    by (simp add: verifyEvent_def ex_lib_def ex_event_def)
  have st: "ipLimiter after_first_event =
              \<lparr>buckets = [''ip:10.0.0.7'' \<mapsto> \<lparr>tokens = Num 0, last_ms = 5000\<rparr>], rps = 3, burst = 1\<rparr>"
           "pubLimiter after_first_event =
              \<lparr>buckets = [''pub:alice'' \<mapsto> \<lparr>tokens = Num 0, last_ms = 5000\<rparr>], rps = 2, burst = 1\<rparr>"
    by (simp_all add: after_first_event_def on_EVENT_def verifyEvent_def ex_lib_def ex_event_def
          ex_conn_def ex_clock_def one_token_config_def default_config_def initial_state_def
          new_RateLimiter_def allow_def js_sub_def Let_def KIND_PRICE_REQ_def)
  have a: "fst (allow (ipLimiter after_first_event) (''ip:'' @ ip (ex_conn ''10.0.0.9'')) 5000)"
          "\<not> fst (allow (pubLimiter after_first_event) (''pub:'' @ pubkey (ex_event ''e2'' 1)) 5000)"
    by (simp_all add: st allow_def Let_def ex_conn_def ex_event_def)
  have r: "refilled (ipLimiter after_first_event) ''ip:10.0.0.9'' 5000 = Num 1"
    by (simp add: st refilled_def bucket_at_def)
  show ?thesis
    using v a r pubkey_denial_keeps_ip_token [OF v, of after_first_event "ex_conn ''10.0.0.9''"
              "ex_clock 5000" one_token_config]
    by (auto simp: ex_conn_def ex_event_def ex_clock_def send_def js_sub_def)
qed

section \<open>Properties of queries and subscriptions\<close>








section \<open>Properties of the price request handler\<close>

lemma reported_cache_response:
  "reported_cache (e\<lparr>content := Some (response_content pair now r hit age)\<rparr>) = Some (hit, of_int age)"
  by (simp add: reported_cache_def response_content_def)

lemma signEvent_fields:
  "signEvent L secret now k tgs body = Inr e \<Longrightarrow>
     kind e = k \<and> tags e = tgs \<and> content e = Some body"
  by (auto simp: signEvent_def Let_def split: option.splits prod.splits)

lemma cache_hit_Some:
  "cache_hit cfg now m cache = Some v \<Longrightarrow>
     ageMs v \<le> CACHE_TTL_MS cfg \<and> js_le (Num (of_int (ageMs v))) m"
  by (auto simp: cache_hit_def cacheGet_def Let_def split: option.splits if_splits)

lemma start_broadcasts_cases:
  "start_broadcasts cfg L clk evt st = []
   \<or> (\<exists>e. start_broadcasts cfg L clk evt st = [EVENT e] \<and> kind e = KIND_PRICE_ERR)
   \<or> (\<exists>e m v r. start_broadcasts cfg L clk evt st = [EVENT e] \<and> kind e = KIND_PRICE_RES
         \<and> request_maxAgeMsReq L evt = Inr m
         \<and> cache_hit cfg (at_cacheGet clk) (clamp_maxAgeMs cfg m) (priceCache st) = Some v
         \<and> content e = Some (response_content (request_pair evt) (at_content clk) r True (ageMs v)))"
  by (auto simp: start_broadcasts_def price_request_start_def Let_def store_and_broadcast_def
        broadcast_def dest!: signEvent_fields split: sum.splits option.splits)

lemma finish_broadcasts_cases:
  "finish_broadcasts cfg L clk p results st = []
   \<or> (\<exists>e. finish_broadcasts cfg L clk p results st = [EVENT e] \<and> kind e = KIND_PRICE_ERR)
   \<or> (\<exists>e r. finish_broadcasts cfg L clk p results st = [EVENT e] \<and> kind e = KIND_PRICE_RES
         \<and> content e = Some (response_content (p_pair p) (at_content clk) r False 0))"
  by (auto simp: finish_broadcasts_def price_request_finish_def Let_def store_and_broadcast_def
        broadcast_def cacheSet_def dest!: signEvent_fields split: sum.splits option.splits)

text \<open>
  Claim C8, as the code has it. A response of kind 38001 that reports \<open>cache.hit = true\<close>
  is emitted before the fan-out only, and the age it reports is at most \<open>CACHE_TTL_MS\<close>
  and at most the request's \<open>maxAgeMs\<close> after clamping; a response emitted after the
  fan-out never reports a hit. \<open>cacheGet\<close> returns the entry, with its age, exactly
  when there is one and its age does not exceed \<open>CACHE_TTL_MS\<close>. A request with
  \<open>maxAgeMs = 0\<close> gets no cache hit from an entry that is 1 ms old or older.
\<close>

theorem cache_hit_is_fresh:
  "(\<forall>e a. EVENT e \<in> set (start_broadcasts cfg L clk evt st) \<and> kind e = KIND_PRICE_RES
            \<and> reported_cache e = Some (True, a) \<longrightarrow>
          (\<exists>m. request_maxAgeMsReq L evt = Inr m
               \<and> a \<le> of_int (CACHE_TTL_MS cfg) \<and> js_le (Num a) (clamp_maxAgeMs cfg m)))
   \<and> (\<forall>e a. EVENT e \<in> set (finish_broadcasts cfg L clk p results st) \<and> kind e = KIND_PRICE_RES
            \<longrightarrow> reported_cache e \<noteq> Some (True, a))
   \<and> (cacheGet cfg now cache = Some v \<longleftrightarrow>
        (\<exists>c. cache = Some c \<and> now - tsMs c \<le> CACHE_TTL_MS cfg
             \<and> v = \<lparr>tsMs = tsMs c, samples = samples c, ageMs = now - tsMs c\<rparr>))
   \<and> (1 \<le> now - tsMs c \<longrightarrow>
        cache_hit cfg now (clamp_maxAgeMs cfg (Num 0)) (Some c) = None)
   \<and> (request_maxAgeMsReq L evt = Inr (Num 0) \<and> priceCache st = Some c
        \<and> 1 \<le> at_cacheGet clk - tsMs c \<longrightarrow>
        (\<forall>e. EVENT e \<in> set (start_broadcasts cfg L clk evt st) \<longrightarrow> kind e \<noteq> KIND_PRICE_RES))"
proof (intro conjI allI impI)
  fix e a
  assume h: "EVENT e \<in> set (start_broadcasts cfg L clk evt st) \<and> kind e = KIND_PRICE_RES
              \<and> reported_cache e = Some (True, a)"
  from start_broadcasts_cases [of cfg L clk evt st] h
  obtain m v r where m: "request_maxAgeMsReq L evt = Inr m"
    and v: "cache_hit cfg (at_cacheGet clk) (clamp_maxAgeMs cfg m) (priceCache st) = Some v"
    and c: "content e = Some (response_content (request_pair evt) (at_content clk) r True (ageMs v))"
    by (auto simp: KIND_PRICE_RES_def KIND_PRICE_ERR_def)
  from c h have a: "a = of_int (ageMs v)"
    by (simp add: reported_cache_def response_content_def)
  from cache_hit_Some [OF v] a m
  show "\<exists>m. request_maxAgeMsReq L evt = Inr m
               \<and> a \<le> of_int (CACHE_TTL_MS cfg) \<and> js_le (Num a) (clamp_maxAgeMs cfg m)"
    by auto
next
  fix e a
  assume h: "EVENT e \<in> set (finish_broadcasts cfg L clk p results st) \<and> kind e = KIND_PRICE_RES"
  from finish_broadcasts_cases [of cfg L clk p results st] h
  obtain r where "content e = Some (response_content (p_pair p) (at_content clk) r False 0)"
    by (auto simp: KIND_PRICE_RES_def KIND_PRICE_ERR_def)
  then show "reported_cache e \<noteq> Some (True, a)"
    by (simp add: reported_cache_def response_content_def)
next
  show "cacheGet cfg now cache = Some v \<longleftrightarrow>
        (\<exists>c. cache = Some c \<and> now - tsMs c \<le> CACHE_TTL_MS cfg
             \<and> v = \<lparr>tsMs = tsMs c, samples = samples c, ageMs = now - tsMs c\<rparr>)"
    by (auto simp: cacheGet_def Let_def split: option.splits)
next
  assume "1 \<le> now - tsMs c"
  then show "cache_hit cfg now (clamp_maxAgeMs cfg (Num 0)) (Some c) = None"
    by (simp add: cache_hit_def cacheGet_def clamp_maxAgeMs_def Let_def)
next
  fix e
  assume h: "request_maxAgeMsReq L evt = Inr (Num 0) \<and> priceCache st = Some c
        \<and> 1 \<le> at_cacheGet clk - tsMs c"
    and e: "EVENT e \<in> set (start_broadcasts cfg L clk evt st)"
  from h have none: "cache_hit cfg (at_cacheGet clk) (clamp_maxAgeMs cfg (Num 0)) (priceCache st) = None"
    by (simp add: cache_hit_def cacheGet_def clamp_maxAgeMs_def Let_def)
  from start_broadcasts_cases [of cfg L clk evt st] e h none
  show "kind e \<noteq> KIND_PRICE_RES"
    by (auto simp: KIND_PRICE_RES_def KIND_PRICE_ERR_def)
qed

lemma aggregate_three_samples:
  "aggregate three_samples method =
     Inr \<lparr>agg_value = Num 60030, agg_method = ''median'', used = three_samples\<rparr>"
  by (simp add: aggregate_def three_samples_def ex_sample_def median_def js_at_def)

lemma ex_cached_run:
  "start_broadcasts default_config ex_lib (ex_clock 7500)
      (ex_request ''req1'' (JObj [(''maxAgeMs'', JNum 20000)])) cached_state =
   [EVENT ex_cached_reply]"
  by (simp add: start_broadcasts_def price_request_start_def request_pair_def request_body_def
        request_method_def request_maxAgeMsReq_def clamp_maxAgeMs_def ex_request_def getTag_def
        cached_state_def initial_state_def cacheSet_def cache_hit_def cacheGet_def
        default_config_def ex_clock_def ex_lib_def signEvent_def nowSec_def
        store_and_broadcast_def broadcast_def storeEvent_def Let_def
        aggregate_three_samples KIND_PRICE_RES_def ex_cached_reply_def)

theorem cache_hit_is_fresh_witness:
  "EVENT ex_cached_reply \<in> set (start_broadcasts default_config ex_lib (ex_clock 7500)
      (ex_request ''req1'' (JObj [(''maxAgeMs'', JNum 20000)])) cached_state)
   \<and> kind ex_cached_reply = KIND_PRICE_RES
   \<and> reported_cache ex_cached_reply = Some (True, 500)
   \<and> request_maxAgeMsReq ex_lib (ex_request ''req1'' (JObj [(''maxAgeMs'', JNum 20000)]))
       = Inr (Num 20000)
   \<and> (500 :: rat) \<le> of_int (CACHE_TTL_MS default_config)
   \<and> js_le (Num 500) (clamp_maxAgeMs default_config (Num 20000))
   \<and> cache_hit default_config 7001 (clamp_maxAgeMs default_config (Num 0))
        (Some \<lparr>tsMs = 7000, samples = three_samples\<rparr>) = None"
proof -
  have k: "kind ex_cached_reply = KIND_PRICE_RES"
    by (simp add: ex_cached_reply_def KIND_PRICE_RES_def)
  have r: "reported_cache ex_cached_reply = Some (True, 500)"
    by (simp add: ex_cached_reply_def reported_cache_def response_content_def)
  have m: "request_maxAgeMsReq ex_lib (ex_request ''req1'' (JObj [(''maxAgeMs'', JNum 20000)]))
       = Inr (Num 20000)"
    by (simp add: request_maxAgeMsReq_def request_body_def ex_request_def)
  have t: "(1 :: int) \<le> 7001 - tsMs \<lparr>tsMs = 7000, samples = three_samples\<rparr>" by simp
  show ?thesis
    using cache_hit_is_fresh [where cfg = default_config and L = ex_lib and clk = "ex_clock 7500"
        and evt = "ex_request ''req1'' (JObj [(''maxAgeMs'', JNum 20000)])" and st = cached_state
        and now = 7001 and c = "\<lparr>tsMs = 7000, samples = three_samples\<rparr>"]
      k r m t
    by (auto simp: ex_cached_run)
qed

text \<open>
  The claim as written says that a request with \<open>maxAgeMs = 0\<close> never produces a cache
  hit. Against an entry cached in the same millisecond it does: the age is \<open>0\<close>, and
  \<open>0 <= 0\<close> holds.
\<close>

theorem zero_maxAge_hits_fresh_entry:
  "request_maxAgeMsReq ex_lib (ex_request ''req0'' (JObj [(''maxAgeMs'', JNum 0)])) = Inr (Num 0)
   \<and> cache_reports (start_broadcasts default_config ex_lib (ex_clock 7000)
        (ex_request ''req0'' (JObj [(''maxAgeMs'', JNum 0)])) cached_state)
      = [(38001, Some (True, 0))]"
  by (simp add: start_broadcasts_def price_request_start_def request_pair_def request_body_def
        request_method_def request_maxAgeMsReq_def clamp_maxAgeMs_def ex_request_def getTag_def
        cached_state_def initial_state_def cacheSet_def cache_hit_def cacheGet_def
        default_config_def ex_clock_def ex_lib_def signEvent_def nowSec_def
        store_and_broadcast_def broadcast_def storeEvent_def Let_def
        aggregate_three_samples KIND_PRICE_RES_def cache_reports_def List.map_filter_simps
        reported_cache_def response_content_def)

lemma getTag_in_not_null: "getTag_in tgs n = Some t \<Longrightarrow> t \<noteq> JNull"
  by (induction tgs) (auto split: option.splits if_splits)

lemma nth_opt_nth: "nth_opt t i = Some v \<Longrightarrow> t ! i = v"
  by (induction t i rule: nth_opt.induct) simp_all

lemma getTag_in_find:
  "getTag_in tgs n = (case List.find (valued_tag n) tgs of Some t \<Rightarrow> Some (t ! 1) | None \<Rightarrow> None)"
  by (induction tgs) (auto simp: valued_tag_def nth_opt_nth split: option.splits)

lemma nullish_absent: "absent x \<Longrightarrow> nullish x d = d"
  by (auto simp: absent_def)

lemma nullish_present: "v \<noteq> JNull \<Longrightarrow> nullish (Some v) d = v"
  by (cases v) simp_all

lemma start_awaiting_iff:
  assumes "request_method L evt = Inr me" "request_maxAgeMsReq L evt = Inr m"
      and "js_String L (request_pair evt) = Inr lp" "request_pair evt = JStr ''BTC-USD''"
  shows "is_awaiting (fst (price_request_start cfg L clk evt st)) \<longleftrightarrow>
           cache_hit cfg (at_cacheGet clk) (clamp_maxAgeMs cfg m) (priceCache st) = None"
  using assms
  by (auto simp: price_request_start_def Let_def is_awaiting_def
           split: option.splits sum.splits)

text \<open>
  Claim C4, as the code has it. The handler takes the parsed content as the request body,
  or the empty object when the content does not parse or is \<open>null\<close>. A field that is
  missing or \<open>null\<close> gets its default: \<open>method\<close> becomes \<open>trimmed_mean\<close>,
  \<open>maxAgeMs\<close> becomes 20000, and \<open>pair\<close> becomes the value of the first of the
  event's \<open>pair\<close> tags that has a non-empty value or, without one, \<open>BTC-USD\<close>. A field that is present is not
  replaced: \<open>pair\<close> is taken as it is, \<open>method\<close> is its \<open>String\<close> and \<open>maxAgeMs\<close>
  its \<open>Number\<close>. The sources are the recognized names of \<open>sources\<close> when that is
  an array with at least one of them, and all four sources otherwise. The effective
  \<open>maxAgeMs\<close> is the minimum of the requested number and \<open>MAX_REQUEST_MAXAGE_MS\<close>,
  and it is this value that decides, for a request of pair \<open>BTC-USD\<close>, between
  serving the cache and fanning out.
\<close>

theorem request_defaults_and_clamp:
  "(absent (content evt) \<longrightarrow> request_body evt = JObj [])
   \<and> (absent (js_get (request_body evt) ''pair'') \<longrightarrow>
        request_pair evt =
          (case List.find (valued_tag ''pair'') (tags evt) of
             Some t \<Rightarrow> t ! 1
           | None \<Rightarrow> JStr ''BTC-USD''))
   \<and> (\<forall>v. js_get (request_body evt) ''pair'' = Some v \<and> v \<noteq> JNull \<longrightarrow> request_pair evt = v)
   \<and> (absent (js_get (request_body evt) ''method'') \<longrightarrow>
        request_method L evt = Inr ''trimmed_mean'')
   \<and> (\<forall>v. js_get (request_body evt) ''method'' = Some v \<and> v \<noteq> JNull \<longrightarrow>
        request_method L evt = js_String L v)
   \<and> (absent (js_get (request_body evt) ''maxAgeMs'') \<longrightarrow>
        request_maxAgeMsReq L evt = Inr (Num 20000))
   \<and> (\<forall>v. js_get (request_body evt) ''maxAgeMs'' = Some v \<and> v \<noteq> JNull \<longrightarrow>
        request_maxAgeMsReq L evt = js_Number L v)
   \<and> (\<forall>r. clamp_maxAgeMs cfg (Num r) = Num (min r (of_int (MAX_REQUEST_MAXAGE_MS cfg))))
   \<and> (\<forall>xs. js_get (request_body evt) ''sources'' = Some (JArr xs) \<longrightarrow>
        request_sources evt =
          (if List.map_filter recognized_source xs = [] then ALL_SOURCES
           else List.map_filter recognized_source xs))
   \<and> ((\<forall>xs. js_get (request_body evt) ''sources'' \<noteq> Some (JArr xs)) \<longrightarrow>
        request_sources evt = ALL_SOURCES)
   \<and> (\<forall>x s. recognized_source x = Some s \<longleftrightarrow> x = JStr s \<and> s \<in> set ALL_SOURCES)
   \<and> (\<forall>me m lp. request_method L evt = Inr me \<and> request_maxAgeMsReq L evt = Inr m
          \<and> js_String L (request_pair evt) = Inr lp \<and> request_pair evt = JStr ''BTC-USD'' \<longrightarrow>
        (is_awaiting (fst (price_request_start cfg L clk evt st)) \<longleftrightarrow>
           cache_hit cfg (at_cacheGet clk) (clamp_maxAgeMs cfg m) (priceCache st) = None))"
proof (intro conjI allI impI)
  show "request_body evt = JObj []" if "absent (content evt)"
    using that by (simp add: request_body_def nullish_absent)
  show "request_pair evt =
          (case List.find (valued_tag ''pair'') (tags evt) of
             Some t \<Rightarrow> t ! 1
           | None \<Rightarrow> JStr ''BTC-USD'')"
    if "absent (js_get (request_body evt) ''pair'')"
  proof (cases "getTag_in (tags evt) ''pair''")
    case None
    with that show ?thesis
      by (simp add: request_pair_def nullish_absent getTag_def getTag_in_find split: option.splits)
  next
    case (Some v)
    from getTag_in_not_null [OF Some] Some that show ?thesis
      by (auto simp: request_pair_def nullish_absent getTag_def nullish_present getTag_in_find
               split: option.splits)
  qed
  show "request_pair evt = v" if "js_get (request_body evt) ''pair'' = Some v \<and> v \<noteq> JNull" for v
    using that by (simp add: request_pair_def nullish_present)
  show "request_method L evt = Inr ''trimmed_mean''"
    if "absent (js_get (request_body evt) ''method'')"
    using that by (simp add: request_method_def nullish_absent)
  show "request_method L evt = js_String L v"
    if "js_get (request_body evt) ''method'' = Some v \<and> v \<noteq> JNull" for v
    using that by (simp add: request_method_def nullish_present)
  show "request_maxAgeMsReq L evt = Inr (Num 20000)"
    if "absent (js_get (request_body evt) ''maxAgeMs'')"
    using that by (simp add: request_maxAgeMsReq_def nullish_absent)
  show "request_maxAgeMsReq L evt = js_Number L v"
    if "js_get (request_body evt) ''maxAgeMs'' = Some v \<and> v \<noteq> JNull" for v
    using that by (simp add: request_maxAgeMsReq_def nullish_present)
  show "clamp_maxAgeMs cfg (Num r) = Num (min r (of_int (MAX_REQUEST_MAXAGE_MS cfg)))" for r
    by (simp add: clamp_maxAgeMs_def)
  show "request_sources evt =
          (if List.map_filter recognized_source xs = [] then ALL_SOURCES
           else List.map_filter recognized_source xs)"
    if "js_get (request_body evt) ''sources'' = Some (JArr xs)" for xs
    using that by (simp add: request_sources_def Let_def)
  show "request_sources evt = ALL_SOURCES"
    if "\<forall>xs. js_get (request_body evt) ''sources'' \<noteq> Some (JArr xs)"
    using that by (auto simp: request_sources_def Let_def split: option.splits json.splits)
  show "recognized_source x = Some s \<longleftrightarrow> x = JStr s \<and> s \<in> set ALL_SOURCES" for x s
    by (auto simp: recognized_source_def split: json.splits if_splits)
  show "is_awaiting (fst (price_request_start cfg L clk evt st)) \<longleftrightarrow>
           cache_hit cfg (at_cacheGet clk) (clamp_maxAgeMs cfg m) (priceCache st) = None"
    if "request_method L evt = Inr me \<and> request_maxAgeMsReq L evt = Inr m
          \<and> js_String L (request_pair evt) = Inr lp \<and> request_pair evt = JStr ''BTC-USD''"
    for me m lp
    using that start_awaiting_iff [of L evt me m lp cfg clk st] by blast
qed

theorem request_defaults_and_clamp_witness:
  "absent (content (ex_event ''req1'' 38000))
   \<and> request_pair (ex_event ''req1'' 38000) = JStr ''BTC-USD''
   \<and> request_method ex_lib (ex_event ''req1'' 38000) = Inr ''trimmed_mean''
   \<and> request_maxAgeMsReq ex_lib (ex_event ''req1'' 38000) = Inr (Num 20000)
   \<and> request_sources (ex_event ''req1'' 38000) = ALL_SOURCES
   \<and> request_method ex_lib ex_full_request = Inr ''median''
   \<and> request_maxAgeMsReq ex_lib ex_full_request = Inr (Num 90000)
   \<and> clamp_maxAgeMs default_config (Num 90000) = Num 60000
   \<and> request_sources ex_full_request = [''kraken'']
   \<and> absent (js_get (request_body ex_tagged_request) ''pair'')
   \<and> request_pair ex_tagged_request = JStr ''ETH-USD''
   \<and> is_awaiting (fst (price_request_start default_config ex_lib (ex_clock 9100)
                          ex_full_request cached_state))"
proof -
  have a: "absent (content (ex_event ''req1'' 38000))" by (simp add: absent_def ex_event_def)
  have b: "request_body (ex_event ''req1'' 38000) = JObj []"
    by (simp add: request_body_def ex_event_def)
  have g: "getTag (ex_event ''req1'' 38000) ''pair'' = None" by (simp add: getTag_def ex_event_def)
  have f: "request_body ex_full_request =
             JObj [(''pair'', JStr ''BTC-USD''), (''method'', JStr ''median''),
                   (''sources'', JArr [JStr ''kraken'', JStr ''binance'', JNum 7]),
                   (''maxAgeMs'', JNum 90000)]"
    by (simp add: request_body_def ex_full_request_def ex_request_def)
  have rs: "List.map_filter recognized_source [JStr ''kraken'', JStr ''binance'', JNum 7] = [''kraken'']"
    by (simp add: List.map_filter_simps recognized_source_def ALL_SOURCES_def)
  have miss: "cache_hit default_config (at_cacheGet (ex_clock 9100))
                (clamp_maxAgeMs default_config (Num 90000)) (priceCache cached_state) = None"
    by (simp add: cache_hit_def cacheGet_def cached_state_def cacheSet_def ex_clock_def
          default_config_def)
  have tb: "js_get (request_body ex_tagged_request) ''pair'' = None"
    by (simp add: request_body_def ex_tagged_request_def)
  have tf: "List.find (valued_tag ''pair'') (tags ex_tagged_request)
              = Some [JStr ''pair'', JStr ''ETH-USD'']"
    by (simp add: ex_tagged_request_def valued_tag_def)
  have ef: "List.find (valued_tag ''pair'') (tags (ex_event ''req1'' 38000)) = None"
    by (simp add: ex_event_def)
  show ?thesis
    using request_defaults_and_clamp [where evt = "ex_event ''req1'' 38000" and L = ex_lib
             and cfg = default_config]
          request_defaults_and_clamp [where evt = ex_full_request and L = ex_lib
             and cfg = default_config and clk = "ex_clock 9100" and st = cached_state]
          request_defaults_and_clamp [where evt = ex_tagged_request and L = ex_lib
             and cfg = default_config]
          a rs miss
    by (simp add: b f tb tf ef absent_def default_config_def)
qed

text \<open>
  The claim as written says that an invalid field falls back to its default and that the
  pair is \<open>BTC-USD\<close> when the content carries none. A request whose content gives a
  method outside the three names and an object for \<open>maxAgeMs\<close>, and whose tags name
  another pair, keeps the method, gets \<open>NaN\<close> for \<open>maxAgeMs\<close>, clamped to \<open>NaN\<close>,
  and takes the pair of the tag; \<open>maxAgeMs: true\<close> gives 1.
\<close>

theorem invalid_fields_not_defaulted:
  "js_get (request_body ex_odd_request) ''pair'' = None
   \<and> request_pair ex_odd_request = JStr ''ETH-USD''
   \<and> request_method ex_lib ex_odd_request = Inr ''fastest''
   \<and> request_maxAgeMsReq ex_lib ex_odd_request = Inr NaN
   \<and> clamp_maxAgeMs default_config NaN = NaN
   \<and> request_maxAgeMsReq ex_lib (ex_request ''req4'' (JObj [(''maxAgeMs'', JBool True)]))
       = Inr (Num 1)"
  by (simp add: request_body_def request_pair_def request_method_def request_maxAgeMsReq_def
        clamp_maxAgeMs_def ex_odd_request_def ex_request_def getTag_def)

section \<open>Terminal events of a request\<close>

text \<open>
  Each step of the handler broadcasts one terminal event for its request when it runs to
  its end, and none when it stops at the fan-out or at an exception.
\<close>

lemma reply_tags_terminal:
  "signEvent L secret now k (reply_tags evt t pair @ rest) body = Inr e \<Longrightarrow>
     k = KIND_PRICE_RES \<or> k = KIND_PRICE_ERR \<Longrightarrow> is_terminal_for evt (EVENT e)"
  by (auto simp: signEvent_def Let_def is_terminal_for_def reply_tags_def
           split: option.splits prod.splits)

lemma reply_tags_terminal0:
  "signEvent L secret now k (reply_tags evt t pair) body = Inr e \<Longrightarrow>
     k = KIND_PRICE_RES \<or> k = KIND_PRICE_ERR \<Longrightarrow> is_terminal_for evt (EVENT e)"
  using reply_tags_terminal [of L secret now k evt t pair "[]" body e] by simp

lemma new_broadcast:
  "drop (length (broadcasted st)) (broadcasted (store_and_broadcast cfg e st)) = [EVENT e]"
  by (simp add: store_and_broadcast_def broadcast_def)

lemma start_terminal_count:
  "length (filter (is_terminal_for evt) (start_broadcasts cfg L clk evt st)) =
     (if fst (price_request_start cfg L clk evt st) = Finished then 1 else 0)"
proof (cases "request_method L evt")
  case (Inl e)
  then show ?thesis by (simp add: start_broadcasts_def price_request_start_def Let_def)
next
  case me: (Inr meth)
  show ?thesis
  proof (cases "request_maxAgeMsReq L evt")
    case (Inl e)
    then show ?thesis using me by (simp add: start_broadcasts_def price_request_start_def Let_def)
  next
    case m: (Inr m)
    show ?thesis
    proof (cases "js_String L (request_pair evt)")
      case (Inl e)
      then show ?thesis
        using me m by (simp add: start_broadcasts_def price_request_start_def Let_def)
    next
      case lp: (Inr lp)
      show ?thesis
      proof (cases "request_pair evt = JStr ''BTC-USD''")
        case False
        show ?thesis
        proof (cases "signEvent L (RELAY_SECRET_KEY st) (at_sign clk) KIND_PRICE_ERR
                 (reply_tags evt ''price-error'' (request_pair evt))
                 (JObj [(''error'', JStr ''unsupported pair''), (''pair'', request_pair evt)])")
          case (Inl e)
          then show ?thesis
            using me m lp False
            by (simp add: start_broadcasts_def price_request_start_def Let_def)
        next
          case (Inr ev)
          from reply_tags_terminal0 [OF Inr] have "is_terminal_for evt (EVENT ev)" by simp
          then show ?thesis
            using me m lp False Inr
            by (simp add: start_broadcasts_def price_request_start_def Let_def new_broadcast)
        qed
      next
        case True
        show ?thesis
        proof (cases "cache_hit cfg (at_cacheGet clk) (clamp_maxAgeMs cfg m) (priceCache st)")
          case None
          then show ?thesis
            using me m lp True
            by (simp add: start_broadcasts_def price_request_start_def Let_def)
        next
          case (Some v)
          show ?thesis
          proof (cases "aggregate (samples v) meth")
            case (Inl e)
            then show ?thesis
              using me m lp True Some
              by (simp add: start_broadcasts_def price_request_start_def Let_def)
          next
            case r: (Inr r)
            show ?thesis
            proof (cases "signEvent L (RELAY_SECRET_KEY st) (at_sign clk) KIND_PRICE_RES
                         (response_tags evt (request_pair evt) r)
                         (response_content (request_pair evt) (at_content clk) r True (ageMs v))")
              case (Inl e)
              then show ?thesis
                using me m lp True Some r
                by (simp add: start_broadcasts_def price_request_start_def Let_def)
            next
              case (Inr ev)
              from reply_tags_terminal [OF Inr [unfolded response_tags_def]]
              have "is_terminal_for evt (EVENT ev)" by simp
              then show ?thesis
                using me m lp True Some r Inr
                by (simp add: start_broadcasts_def price_request_start_def Let_def new_broadcast)
            qed
          qed
        qed
      qed
    qed
  qed
qed

lemma finish_terminal_count:
  "length (filter (is_terminal_for (p_req p)) (finish_broadcasts cfg L clk p results st)) =
     (if fst (price_request_finish cfg L clk p results st) = Finished then 1 else 0)"
proof (cases "int (length (List.map_filter (\<lambda>r. r) results)) < MIN_QUORUM cfg")
  case True
  show ?thesis
  proof (cases "signEvent L (RELAY_SECRET_KEY st) (at_sign clk) KIND_PRICE_ERR
                   (reply_tags (p_req p) ''price-error'' (p_pair p))
                   (JObj [(''error'', JStr ''insufficient quorum''),
                          (''need'', JNum (of_int (MIN_QUORUM cfg))),
                          (''got'', JNum (of_nat (length (List.map_filter (\<lambda>r. r) results)))),
                          (''sources_requested'', JArr (map JStr (p_sources p)))])")
    case (Inl e)
    then show ?thesis
      using True by (simp add: finish_broadcasts_def price_request_finish_def Let_def)
  next
    case (Inr ev)
    from reply_tags_terminal0 [OF Inr] have "is_terminal_for (p_req p) (EVENT ev)" by simp
    then show ?thesis
      using True Inr
      by (simp add: finish_broadcasts_def price_request_finish_def Let_def new_broadcast)
  qed
next
  case False
  let ?st1 = "st\<lparr>priceCache := cacheSet (at_cacheSet clk) (List.map_filter (\<lambda>r. r) results)\<rparr>"
  have b1: "broadcasted ?st1 = broadcasted st" by simp
  show ?thesis
  proof (cases "aggregate (List.map_filter (\<lambda>r. r) results) (p_method p)")
    case (Inl e)
    then show ?thesis
      using False by (simp add: finish_broadcasts_def price_request_finish_def Let_def)
  next
    case r: (Inr r)
    show ?thesis
    proof (cases "signEvent L (RELAY_SECRET_KEY ?st1) (at_sign clk) KIND_PRICE_RES
                      (response_tags (p_req p) (p_pair p) r)
                      (response_content (p_pair p) (at_content clk) r False 0)")
      case (Inl e)
      then show ?thesis
        using False r by (simp add: finish_broadcasts_def price_request_finish_def Let_def)
    next
      case (Inr ev)
      from reply_tags_terminal [OF Inr [unfolded response_tags_def]]
      have "is_terminal_for (p_req p) (EVENT ev)" by simp
      then show ?thesis
        using False r Inr new_broadcast [of ?st1 cfg ev]
        by (simp add: finish_broadcasts_def price_request_finish_def Let_def)
    qed
  qed
qed

lemma start_awaits_same_request:
  "fst (price_request_start cfg L clk evt st) = Awaiting p \<Longrightarrow> p_req p = evt"
  by (auto simp: price_request_start_def Let_def split: sum.splits option.splits if_splits)

text \<open>
  Claim C2 asks for exactly one terminal event per accepted request. The handler has no
  \<open>try\<close> around its body: an exception ends the run after \<open>OK true\<close> with nothing
  broadcast. A request whose content is \<open>{"method": {"toString": 1}}\<close> is accepted and
  stored, then \<open>String(body.method)\<close> throws, and no terminal event follows. Under a
  configuration with \<open>MIN_QUORUM\<close> at zero the same happens after a fan-out in which
  every fetch fails, where \<open>aggregate\<close> throws on the empty sample list.
\<close>

theorem unprintable_method_no_terminal_event:
  "on_EVENT default_config ex_lib (ex_clock 5000) (ex_conn ''10.0.0.7'') ex_unprintable_request
      (initial_state default_config ''sk'')
   = (\<lparr>ip = ''10.0.0.7'', subs = Map.empty, is_open = True, sent = [OK ''req5'' True ''accepted'']\<rparr>,
      (initial_state default_config ''sk'')
        \<lparr>events := [ex_unprintable_request],
         ipLimiter := snd (allow (new_RateLimiter 3 10) ''ip:10.0.0.7'' 5000),
         pubLimiter := snd (allow (new_RateLimiter 2 10) ''pub:alice'' 5000)\<rparr>,
      Thrown (TypeError ''Cannot convert object to primitive value''))
   \<and> filter (is_terminal_for ex_unprintable_request)
        (broadcasted (fst (snd (on_EVENT default_config ex_lib (ex_clock 5000)
           (ex_conn ''10.0.0.7'') ex_unprintable_request (initial_state default_config ''sk'')))))
      = []"
  by (simp add: on_EVENT_def verifyEvent_def ex_lib_def ex_unprintable_request_def ex_request_def
        ex_conn_def ex_clock_def default_config_def initial_state_def send_def storeEvent_def
        allow_def new_RateLimiter_def Let_def KIND_PRICE_REQ_def price_request_start_def
        request_method_def request_body_def)

lemma empty_quorum_throws:
  "price_request_finish (default_config\<lparr>MIN_QUORUM := 0\<rparr>) L clk p [None, None, None, None] st
     = (Thrown (Error ''no samples''), st\<lparr>priceCache := cacheSet (at_cacheSet clk) []\<rparr>)"
  by (simp add: price_request_finish_def List.map_filter_simps aggregate_def)

section \<open>Fan-outs\<close>

lemma start_fetch_calls:
  "fetch_calls (snd (price_request_start cfg L clk evt st)) =
     (case fst (price_request_start cfg L clk evt st) of
        Awaiting p \<Rightarrow> fetch_calls st @ [p_sources p]
      | _ \<Rightarrow> fetch_calls st)"
  by (simp add: price_request_start_def Let_def store_and_broadcast_def broadcast_def
           split: sum.splits option.splits)

lemma start_keeps_cache:
  "priceCache (snd (price_request_start cfg L clk evt st)) = priceCache st"
  by (simp add: price_request_start_def Let_def store_and_broadcast_def broadcast_def
           split: sum.splits option.splits)

lemma on_message_keeps_cache:
  "priceCache (fst (snd (on_message cfg L clk ws frame st))) = priceCache st"
proof -
  have ev: "priceCache (fst (snd (on_EVENT cfg L clk ws evt st))) = priceCache st" for evt
    by (simp add: on_EVENT_def Let_def split_beta start_keeps_cache)
  show ?thesis
    by (simp add: on_message_def ev split: option.splits client_msg.splits)
qed

lemma finish_cache:
  "priceCache (snd (price_request_finish cfg L clk p results st)) =
     (if int (length (List.map_filter (\<lambda>r. r) results)) < MIN_QUORUM cfg then priceCache st
      else Some \<lparr>tsMs = at_cacheSet clk, samples = List.map_filter (\<lambda>r. r) results\<rparr>)"
  by (simp add: price_request_finish_def Let_def store_and_broadcast_def broadcast_def
        cacheSet_def split: sum.splits)

text \<open>
  Claim C3, as the code has it. The handler has no in-flight fetch to join: a request
  for \<open>BTC-USD\<close> that finds no admissible cache entry launches a fan-out of its own
  over its sources, whatever fan-outs are already under way, and one that finds an
  admissible entry launches none. The cache is written in one place only: by the rest
  of the handler, once its fan-out has settled, and only when the successful samples
  reach \<open>MIN_QUORUM\<close>; neither the first part of the handler nor any other message
  touches it. So until a fan-out has settled with a quorum, every further request finds
  the cache as cold as the first did.
\<close>

theorem every_cache_miss_fans_out:
  assumes "request_method L evt = Inr me" and "request_maxAgeMsReq L evt = Inr m"
      and "js_String L (request_pair evt) = Inr lp" and "request_pair evt = JStr ''BTC-USD''"
  shows "(cache_hit cfg (at_cacheGet clk) (clamp_maxAgeMs cfg m) (priceCache st) = None \<longrightarrow>
            price_request_start cfg L clk evt st =
              (Awaiting \<lparr>p_req = evt, p_pair = JStr ''BTC-USD'', p_method = me,
                         p_sources = request_sources evt\<rparr>,
               st\<lparr>fetch_calls := fetch_calls st @ [request_sources evt]\<rparr>))
       \<and> (cache_hit cfg (at_cacheGet clk) (clamp_maxAgeMs cfg m) (priceCache st) \<noteq> None \<longrightarrow>
            fetch_calls (snd (price_request_start cfg L clk evt st)) = fetch_calls st
            \<and> \<not> is_awaiting (fst (price_request_start cfg L clk evt st)))
       \<and> priceCache (snd (price_request_start cfg L clk evt st)) = priceCache st
       \<and> priceCache (fst (snd (on_message cfg L clk ws frame st))) = priceCache st
       \<and> priceCache (snd (price_request_finish cfg L clk p results st)) =
           (if int (length (List.map_filter (\<lambda>r. r) results)) < MIN_QUORUM cfg then priceCache st
            else Some \<lparr>tsMs = at_cacheSet clk, samples = List.map_filter (\<lambda>r. r) results\<rparr>)"
proof (intro conjI impI)
  assume "cache_hit cfg (at_cacheGet clk) (clamp_maxAgeMs cfg m) (priceCache st) = None"
  then show "price_request_start cfg L clk evt st =
              (Awaiting \<lparr>p_req = evt, p_pair = JStr ''BTC-USD'', p_method = me,
                         p_sources = request_sources evt\<rparr>,
               st\<lparr>fetch_calls := fetch_calls st @ [request_sources evt]\<rparr>)"
    using assms by (simp add: price_request_start_def Let_def)
next
  assume h: "cache_hit cfg (at_cacheGet clk) (clamp_maxAgeMs cfg m) (priceCache st) \<noteq> None"
  with start_awaiting_iff [OF assms, of cfg clk st]
  show na: "\<not> is_awaiting (fst (price_request_start cfg L clk evt st))" by simp
  then show "fetch_calls (snd (price_request_start cfg L clk evt st)) = fetch_calls st"
    by (simp add: start_fetch_calls is_awaiting_def split: step_result.splits)
next
  show "priceCache (snd (price_request_start cfg L clk evt st)) = priceCache st"
    by (rule start_keeps_cache)
next
  show "priceCache (fst (snd (on_message cfg L clk ws frame st))) = priceCache st"
    by (rule on_message_keeps_cache)
next
  show "priceCache (snd (price_request_finish cfg L clk p results st)) =
           (if int (length (List.map_filter (\<lambda>r. r) results)) < MIN_QUORUM cfg then priceCache st
            else Some \<lparr>tsMs = at_cacheSet clk, samples = List.map_filter (\<lambda>r. r) results\<rparr>)"
    by (rule finish_cache)
qed

lemma ex_plain_request:
  "request_method ex_lib (ex_request i (JObj [])) = Inr ''trimmed_mean''"
  "request_maxAgeMsReq ex_lib (ex_request i (JObj [])) = Inr (Num 20000)"
  "request_pair (ex_request i (JObj [])) = JStr ''BTC-USD''"
  "js_String ex_lib (request_pair (ex_request i (JObj []))) = Inr ''BTC-USD''"
  "request_sources (ex_request i (JObj [])) = ALL_SOURCES"
  by (simp_all add: request_method_def request_maxAgeMsReq_def request_pair_def
        request_body_def request_sources_def ex_request_def getTag_def)

theorem every_cache_miss_fans_out_witness:
  "cache_hit default_config (at_cacheGet (ex_clock 5000)) (clamp_maxAgeMs default_config (Num 20000))
       (priceCache (initial_state default_config ''sk'')) = None
   \<and> price_request_start default_config ex_lib (ex_clock 5000) (ex_request ''req6'' (JObj []))
        (initial_state default_config ''sk'') =
       (Awaiting \<lparr>p_req = ex_request ''req6'' (JObj []), p_pair = JStr ''BTC-USD'',
                  p_method = ''trimmed_mean'', p_sources = ALL_SOURCES\<rparr>,
        (initial_state default_config ''sk'')\<lparr>fetch_calls := [ALL_SOURCES]\<rparr>)
   \<and> cache_hit default_config (at_cacheGet (ex_clock 7500)) (clamp_maxAgeMs default_config (Num 20000))
       (priceCache cached_state) \<noteq> None
   \<and> fetch_calls (snd (price_request_start default_config ex_lib (ex_clock 7500)
        (ex_request ''req6'' (JObj [])) cached_state)) = []
   \<and> priceCache (snd (price_request_finish default_config ex_lib (ex_clock 5900) ex_pending
        [Some (ex_sample ''coinbase'' 60000), None, Some (ex_sample ''coingecko'' 60100), None]
        (initial_state default_config ''sk''))) = None
   \<and> priceCache (snd (price_request_finish default_config ex_lib (ex_clock 5900) ex_pending
        (map Some three_samples @ [None]) (initial_state default_config ''sk'')))
       = Some \<lparr>tsMs = 5900, samples = three_samples\<rparr>"
proof -
  have miss: "cache_hit default_config (at_cacheGet (ex_clock 5000))
       (clamp_maxAgeMs default_config (Num 20000)) (priceCache (initial_state default_config ''sk''))
       = None"
    by (simp add: cache_hit_def cacheGet_def initial_state_def)
  have hit: "cache_hit default_config (at_cacheGet (ex_clock 7500))
       (clamp_maxAgeMs default_config (Num 20000)) (priceCache cached_state) \<noteq> None"
    by (simp add: cache_hit_def cacheGet_def cached_state_def cacheSet_def ex_clock_def
          default_config_def clamp_maxAgeMs_def)
  have f0: "fetch_calls (initial_state default_config ''sk'') = []"
           "fetch_calls cached_state = []"
    by (simp_all add: initial_state_def cached_state_def)
  note inst = every_cache_miss_fans_out [OF ex_plain_request(1,2,4,3) [of "''req6''"]]
  have A: "price_request_start default_config ex_lib (ex_clock 5000) (ex_request ''req6'' (JObj []))
        (initial_state default_config ''sk'') =
       (Awaiting \<lparr>p_req = ex_request ''req6'' (JObj []), p_pair = JStr ''BTC-USD'',
                  p_method = ''trimmed_mean'', p_sources = ALL_SOURCES\<rparr>,
        (initial_state default_config ''sk'')\<lparr>fetch_calls := [ALL_SOURCES]\<rparr>)"
    using inst [where cfg = default_config and clk = "ex_clock 5000"
              and st = "initial_state default_config ''sk''"] miss
    by (simp add: f0 ex_plain_request)
  have B: "fetch_calls (snd (price_request_start default_config ex_lib (ex_clock 7500)
        (ex_request ''req6'' (JObj [])) cached_state)) = []"
    using inst [where cfg = default_config and clk = "ex_clock 7500" and st = cached_state] hit
    by (simp add: f0)
  have q: "MIN_QUORUM default_config = 3" "at_cacheSet (ex_clock 5900) = 5900"
    by (simp_all add: default_config_def ex_clock_def)
  have c0: "priceCache (initial_state default_config ''sk'') = None"
    by (simp add: initial_state_def)
  have C: "priceCache (snd (price_request_finish default_config ex_lib (ex_clock 5900) ex_pending
        [Some (ex_sample ''coinbase'' 60000), None, Some (ex_sample ''coingecko'' 60100), None]
        (initial_state default_config ''sk''))) = None"
    using inst [where cfg = default_config and clk = "ex_clock 5900" and p = ex_pending
              and st = "initial_state default_config ''sk''"
              and results = "[Some (ex_sample ''coinbase'' 60000), None,
                              Some (ex_sample ''coingecko'' 60100), None]"]
    by (simp add: q c0 List.map_filter_simps)
  have D: "priceCache (snd (price_request_finish default_config ex_lib (ex_clock 5900) ex_pending
        (map Some three_samples @ [None]) (initial_state default_config ''sk'')))
       = Some \<lparr>tsMs = 5900, samples = three_samples\<rparr>"
    using inst [where cfg = default_config and clk = "ex_clock 5900" and p = ex_pending
              and st = "initial_state default_config ''sk''"
              and results = "map Some three_samples @ [None]"]
    by (simp add: q c0 List.map_filter_simps three_samples_def)
  show ?thesis using miss hit A B C D by simp
qed

text \<open>
  The claim as written says that two requests handled while the cache is cold share one
  fan-out. Two requests accepted one after the other, the second before the fan-out of
  the first has settled, make two fan-outs of four sources each.
\<close>

lemma first_cold_request:
  "fst (snd (on_EVENT default_config ex_lib (ex_clock 5000) (ex_conn ''10.0.0.7'')
               (ex_request ''req6'' (JObj [])) (initial_state default_config ''sk'')))
   = (initial_state default_config ''sk'')
       \<lparr>events := [ex_request ''req6'' (JObj [])],
        ipLimiter := snd (allow (new_RateLimiter 3 10) ''ip:10.0.0.7'' 5000),
        pubLimiter := snd (allow (new_RateLimiter 2 10) ''pub:alice'' 5000),
        fetch_calls := [ALL_SOURCES]\<rparr>"
  by (simp add: on_EVENT_def verifyEvent_def ex_lib_def ex_request_def
        ex_conn_def ex_clock_def default_config_def initial_state_def send_def storeEvent_def
        allow_def new_RateLimiter_def Let_def KIND_PRICE_REQ_def price_request_start_def
        request_method_def request_maxAgeMsReq_def request_pair_def request_body_def
        request_sources_def getTag_def clamp_maxAgeMs_def cache_hit_def cacheGet_def)

theorem two_cold_requests_two_fanouts:
  "fetch_calls after_two_cold_requests = [ALL_SOURCES, ALL_SOURCES]
   \<and> priceCache after_two_cold_requests = None
   \<and> broadcasted after_two_cold_requests = []"
  unfolding after_two_cold_requests_def first_cold_request
  by (simp add: on_EVENT_def verifyEvent_def ex_lib_def ex_request_def
        ex_conn_def ex_clock_def default_config_def initial_state_def send_def storeEvent_def
        allow_def new_RateLimiter_def Let_def KIND_PRICE_REQ_def price_request_start_def
        request_method_def request_maxAgeMsReq_def request_pair_def request_body_def
        request_sources_def getTag_def clamp_maxAgeMs_def cache_hit_def cacheGet_def
        js_sub_def fl_normal [where e = "- 10"] fl_normal [where e = "- 9"]
        fl_normal [where e = 3])

section \<open>The size check on inbound frames\<close>

lemma oversize_rejected:
  "toString_length (payload frame) > MAX_EVENT_BYTES cfg \<Longrightarrow>
     on_message cfg L clk ws frame st = (send ws (NOTICE ''payload too large''), st, Finished)"
  by (simp add: on_message_def)

lemma ascii_byte_size:
  "\<forall>c \<in> set cps. c < 128 \<Longrightarrow> byte_size cps = toString_length cps"
  by (induction cps) (simp_all add: byte_size_def toString_length_def utf8_bytes_def utf16_units_def)

lemma sum_list_map_replicate: "sum_list (map f (replicate n x)) = n * f x"
  by (induction n) simp_all

text \<open>
  Claim C9 measures the frame in bytes. The handler compares \<open>raw.toString().length\<close>,
  the number of UTF-16 code units of the decoded text, with \<open>MAX_EVENT_BYTES\<close>; the two
  agree on ASCII text only. A frame of 64001 bytes that holds one two-byte character has
  64000 code units: it is not rejected, and it is processed as the \<open>REQ\<close> it is.
\<close>

theorem long_frame_not_rejected:
  "byte_size (payload ex_long_frame) = 64001
   \<and> MAX_EVENT_BYTES default_config = 64000
   \<and> toString_length (payload ex_long_frame) = 64000
   \<and> on_message default_config ex_lib (ex_clock 5000) (ex_conn ''10.0.0.7'') ex_long_frame
        (initial_state default_config ''sk'')
      = (\<lparr>ip = ''10.0.0.7'', subs = [[CHR 0xC3, CHR 0xA9] \<mapsto> []], is_open = True,
          sent = [EOSE [CHR 0xC3, CHR 0xA9]]\<rparr>,
         initial_state default_config ''sk'', Finished)"
proof -
  have b: "byte_size (payload ex_long_frame) = 64001"
    by (simp add: ex_long_frame_def byte_size_def utf8_bytes_def sum_list_map_replicate sum_list_replicate)
  have u: "toString_length (payload ex_long_frame) = 64000"
    by (simp add: ex_long_frame_def toString_length_def utf16_units_def sum_list_map_replicate sum_list_replicate)
  have m: "MAX_EVENT_BYTES default_config = 64000" by (simp add: default_config_def)
  have d: "decoded ex_long_frame = Some (REQ_frame [CHR 0xC3, CHR 0xA9] [])"
    by (simp add: ex_long_frame_def)
  show ?thesis
    unfolding on_message_def u m d
    using b by (simp add: on_REQ_def queryEvents_def send_def ex_conn_def)
qed

end
